theory Spec2Isabelle
  imports Main "HOL-Library.Word" "HOL-Library.AList"
begin

unbundle bit_operations_syntax

section \<open>Go values\<close>

text \<open>
  The repository is a gRPC file server written in Go.  A Go \<^verbatim>\<open>string\<close> and a
  \<^verbatim>\<open>[]byte\<close> are byte sequences: strings are \<^typ>\<open>string\<close> (a list of 8-bit
  characters, UTF-8 as Go stores it), byte slices are lists of \<^typ>\<open>8 word\<close>.
  \<^verbatim>\<open>int64\<close> is \<^typ>\<open>64 word\<close>, read as a signed number by \<^const>\<open>sint\<close>.
  A \<^verbatim>\<open>time.Time\<close> is an instant, here an integer.
\<close>

type_synonym byte = "8 word"
type_synonym int64 = "64 word"
type_synonym time = int

subsection \<open>Errors\<close>

text \<open>
  An error of package \<^verbatim>\<open>os\<close> either satisfies \<^verbatim>\<open>os.IsNotExist\<close> or does not; it
  carries its message.
\<close>

datatype os_error = ErrNotExist string | ErrOther string

definition os_IsNotExist :: "os_error \<Rightarrow> bool" where
  "os_IsNotExist err = (case err of ErrNotExist _ \<Rightarrow> True | ErrOther _ \<Rightarrow> False)"

definition os_message :: "os_error \<Rightarrow> string" where
  "os_message err = (case err of ErrNotExist m \<Rightarrow> m | ErrOther m \<Rightarrow> m)"

datatype ctx_error = Canceled | DeadlineExceeded

text \<open>
  The values of Go's \<^verbatim>\<open>error\<close> interface that the server builds.  The first seven
  are the sentinel variables of \<^verbatim>\<open>package repository\<close> (error.go, lines 5-13);
  sentinels are compared by identity, so each is a constructor of its own.
  \<open>Errorf p e\<close> is \<^verbatim>\<open>fmt.Errorf(p + "%w", e)\<close>, a new error value that wraps \<open>e\<close>;
  \<open>ErrorString m\<close> is \<^verbatim>\<open>fmt.Errorf(m)\<close> without operands.
\<close>

datatype go_error =
    ErrFileNotFound
  | ErrInvalidFileID
  | ErrFileTooLarge
  | ErrInvalidFilename
  | ErrStorageUnavailable
  | ErrFileIsEmpty
  | ErrFailToDeleteFile
  | Errorf string go_error
  | ErrorString string
  | OsError os_error
  | CtxError ctx_error

fun Error :: "go_error \<Rightarrow> string" where
  "Error ErrFileNotFound = ''FILE NOT FOUND''"
| "Error ErrInvalidFileID = ''INVALID FILE ID''"
| "Error ErrFileTooLarge = ''FILE TOO LARGE''"
| "Error ErrInvalidFilename = ''INVALIDFILENAME''"
| "Error ErrStorageUnavailable = ''STORAGE UNAVAILABLE''"
| "Error ErrFileIsEmpty = ''FILE IS EMPTY''"
| "Error ErrFailToDeleteFile = ''FAIL TO DELETE FILE''"
| "Error (Errorf p e) = p @ Error e"
| "Error (ErrorString m) = m"
| "Error (OsError e) = os_message e"
| "Error (CtxError Canceled) = ''context canceled''"
| "Error (CtxError DeadlineExceeded) = ''context deadline exceeded''"

text \<open>
  A call either returns, or the Go runtime stops the process with a fatal error, or the
  goroutine waits forever.  The last two are outcomes of their own, so that a misuse of
  a lock is a branch of the model and not a silent success.
\<close>

datatype 'a outcome = Return 'a | Fatal string | Blocked

fun and_then :: "'a outcome \<Rightarrow> ('a \<Rightarrow> 'b outcome) \<Rightarrow> 'b outcome" where
  "and_then (Return x) f = f x"
| "and_then (Fatal msg) f = Fatal msg"
| "and_then Blocked f = Blocked"

text \<open>What a call returned, when it returned: the value without the state.\<close>

definition returned :: "('a \<times> 's) outcome \<Rightarrow> 'a option" where
  "returned out = (case out of Return (x, s) \<Rightarrow> Some x | Fatal msg \<Rightarrow> None | Blocked \<Rightarrow> None)"

subsection \<open>sync.RWMutex\<close>

text \<open>
  The standard library's reader/writer lock, as one goroutine sees it: who holds it, and
  what the documentation of \<^verbatim>\<open>sync.RWMutex\<close> says of each call.  \<^verbatim>\<open>Lock\<close> and
  \<^verbatim>\<open>RLock\<close> wait while the lock is held in a conflicting mode; "it is a run-time
  error if rw is not locked for reading on entry to RUnlock", and likewise for
  \<^verbatim>\<open>Unlock\<close> and writing.  The runtime reports both with \<^verbatim>\<open>fatal\<close>, which no
  \<^verbatim>\<open>recover\<close> catches.
\<close>

record RWMutex =
  writer :: bool
  readers :: nat

definition RWMutex_zero :: RWMutex where
  "RWMutex_zero = \<lparr>writer = False, readers = 0\<rparr>"

definition Lock :: "RWMutex \<Rightarrow> RWMutex outcome" where
  "Lock rw = (if writer rw \<or> 0 < readers rw then Blocked else Return (rw\<lparr>writer := True\<rparr>))"

definition Unlock :: "RWMutex \<Rightarrow> RWMutex outcome" where
  "Unlock rw =
     (if writer rw then Return (rw\<lparr>writer := False\<rparr>)
      else Fatal ''sync: Unlock of unlocked RWMutex'')"

definition RLock :: "RWMutex \<Rightarrow> RWMutex outcome" where
  "RLock rw = (if writer rw then Blocked else Return (rw\<lparr>readers := Suc (readers rw)\<rparr>))"

definition RUnlock :: "RWMutex \<Rightarrow> RWMutex outcome" where
  "RUnlock rw =
     (if readers rw = 0 then Fatal ''sync: RUnlock of unlocked RWMutex''
      else Return (rw\<lparr>readers := readers rw - 1\<rparr>))"

section \<open>The file system the repository works on\<close>

text \<open>
  The server reaches the disk through \<^verbatim>\<open>os.ReadFile\<close>, \<^verbatim>\<open>os.WriteFile\<close>,
  \<^verbatim>\<open>os.Remove\<close>, \<^verbatim>\<open>os.ReadDir\<close> and \<^verbatim>\<open>os.MkdirAll\<close>.  The world holds the
  regular files by path, the directory listings by path, and the paths at which the
  system refuses every operation with an error other than "does not exist" (no
  permission, an I/O error, a directory where a file is expected).
\<close>

record os_FileInfo =
  info_ModTime :: time
  info_Size :: int64

record DirEntry =
  entry_Name :: string
  entry_IsDir :: bool
  entry_Info :: "os_error + os_FileInfo"

record world =
  objects :: "string \<rightharpoonup> byte list"
  dirs :: "string \<rightharpoonup> DirEntry list"
  faults :: "string \<rightharpoonup> string"

definition os_ReadFile :: "world \<Rightarrow> string \<Rightarrow> os_error + byte list" where
  "os_ReadFile w path =
     (case faults w path of
        Some m \<Rightarrow> Inl (ErrOther (''open '' @ path @ '': '' @ m))
      | None \<Rightarrow>
          (case objects w path of
             None \<Rightarrow> Inl (ErrNotExist (''open '' @ path @ '': no such file or directory''))
           | Some data \<Rightarrow> Inr data))"

definition os_WriteFile :: "world \<Rightarrow> string \<Rightarrow> byte list \<Rightarrow> os_error option \<times> world" where
  "os_WriteFile w path data =
     (case faults w path of
        Some m \<Rightarrow> (Some (ErrOther (''open '' @ path @ '': '' @ m)), w)
      | None \<Rightarrow> (None, w\<lparr>objects := (objects w)(path \<mapsto> data)\<rparr>))"

definition os_Remove :: "world \<Rightarrow> string \<Rightarrow> os_error option \<times> world" where
  "os_Remove w path =
     (case faults w path of
        Some m \<Rightarrow> (Some (ErrOther (''remove '' @ path @ '': '' @ m)), w)
      | None \<Rightarrow>
          (case objects w path of
             None \<Rightarrow> (Some (ErrNotExist (''remove '' @ path @ '': no such file or directory'')), w)
           | Some _ \<Rightarrow> (None, w\<lparr>objects := (objects w)(path := None)\<rparr>)))"

definition os_ReadDir :: "world \<Rightarrow> string \<Rightarrow> os_error + DirEntry list" where
  "os_ReadDir w path =
     (case faults w path of
        Some m \<Rightarrow> Inl (ErrOther (''open '' @ path @ '': '' @ m))
      | None \<Rightarrow>
          (case dirs w path of
             None \<Rightarrow> Inl (ErrNotExist (''open '' @ path @ '': no such file or directory''))
           | Some entries \<Rightarrow> Inr entries))"

definition os_MkdirAll :: "world \<Rightarrow> string \<Rightarrow> os_error option \<times> world" where
  "os_MkdirAll w path =
     (case faults w path of
        Some m \<Rightarrow> (Some (ErrOther (''mkdir '' @ path @ '': '' @ m)), w)
      | None \<Rightarrow>
          (case dirs w path of
             None \<Rightarrow> (None, w\<lparr>dirs := (dirs w)(path \<mapsto> [])\<rparr>)
           | Some _ \<Rightarrow> (None, w)))"

section \<open>package model (pkg/model/file.go)\<close>

record FileInfo =
  ID :: string
  Filename :: string
  CreatedAt :: time
  UpdatedAt :: time
  Size :: int64

record File =
  Info :: FileInfo
  Data :: "byte list"

record UploadRequest =
  req_Filename :: string
  req_Data :: "byte list"

record GetResponse =
  resp_Filename :: string
  resp_Data :: "byte list"

section \<open>Standard library functions the repository calls\<close>

subsection \<open>crypto/md5 and encoding/hex\<close>

text \<open>
  \<^verbatim>\<open>md5.Sum\<close> is the MD5 message digest of RFC 1321: the message is padded to a
  multiple of 64 bytes and folded block by block, 64 steps a block, into four 32-bit
  words, which are written out little-endian as 16 bytes.
\<close>

definition md5_shifts :: "nat list" where
  "md5_shifts =
     [7, 12, 17, 22, 7, 12, 17, 22, 7, 12, 17, 22, 7, 12, 17, 22,
      5, 9, 14, 20, 5, 9, 14, 20, 5, 9, 14, 20, 5, 9, 14, 20,
      4, 11, 16, 23, 4, 11, 16, 23, 4, 11, 16, 23, 4, 11, 16, 23,
      6, 10, 15, 21, 6, 10, 15, 21, 6, 10, 15, 21, 6, 10, 15, 21]"

definition md5_table :: "32 word list" where
  "md5_table =
     [0xd76aa478, 0xe8c7b756, 0x242070db, 0xc1bdceee, 0xf57c0faf, 0x4787c62a, 0xa8304613, 0xfd469501,
      0x698098d8, 0x8b44f7af, 0xffff5bb1, 0x895cd7be, 0x6b901122, 0xfd987193, 0xa679438e, 0x49b40821,
      0xf61e2562, 0xc040b340, 0x265e5a51, 0xe9b6c7aa, 0xd62f105d, 0x02441453, 0xd8a1e681, 0xe7d3fbc8,
      0x21e1cde6, 0xc33707d6, 0xf4d50d87, 0x455a14ed, 0xa9e3e905, 0xfcefa3f8, 0x676f02d9, 0x8d2a4c8a,
      0xfffa3942, 0x8771f681, 0x6d9d6122, 0xfde5380c, 0xa4beea44, 0x4bdecfa9, 0xf6bb4b60, 0xbebfbc70,
      0x289b7ec6, 0xeaa127fa, 0xd4ef3085, 0x04881d05, 0xd9d4d039, 0xe6db99e5, 0x1fa27cf8, 0xc4ac5665,
      0xf4292244, 0x432aff97, 0xab9423a7, 0xfc93a039, 0x655b59c3, 0x8f0ccc92, 0xffeff47d, 0x85845dd1,
      0x6fa87e4f, 0xfe2ce6e0, 0xa3014314, 0x4e0811a1, 0xf7537e82, 0xbd3af235, 0x2ad7d2bb, 0xeb86d391]"

definition le32 :: "byte list \<Rightarrow> 32 word" where
  "le32 bs = foldr (\<lambda>b acc. push_bit 8 acc OR ucast b) bs 0"

fun words_of :: "byte list \<Rightarrow> 32 word list" where
  "words_of (b0 # b1 # b2 # b3 # bs) = le32 [b0, b1, b2, b3] # words_of bs"
| "words_of _ = []"

definition bytes_of32 :: "32 word \<Rightarrow> byte list" where
  "bytes_of32 x = [ucast x, ucast (drop_bit 8 x), ucast (drop_bit 16 x), ucast (drop_bit 24 x)]"

definition bytes_of64 :: "64 word \<Rightarrow> byte list" where
  "bytes_of64 x = map (\<lambda>i. ucast (drop_bit (8 * i) x)) [0..<8]"

definition md5_pad :: "byte list \<Rightarrow> byte list" where
  "md5_pad m =
     m @ [0x80] @ replicate ((119 - length m mod 64) mod 64) 0 @ bytes_of64 (of_nat (8 * length m))"

type_synonym md5_state = "32 word \<times> 32 word \<times> 32 word \<times> 32 word"

definition md5_step :: "32 word list \<Rightarrow> md5_state \<Rightarrow> nat \<Rightarrow> md5_state" where
  "md5_step M st i =
     (case st of (a, b, c, d) \<Rightarrow>
        let (f, g) =
              (if i < 16 then ((b AND c) OR (NOT b AND d), i)
               else if i < 32 then ((d AND b) OR (NOT d AND c), (5 * i + 1) mod 16)
               else if i < 48 then (b XOR c XOR d, (3 * i + 5) mod 16)
               else (c XOR (b OR NOT d), (7 * i) mod 16));
            f' = f + a + md5_table ! i + M ! g
        in (d, b + word_rotl (md5_shifts ! i) f', b, c))"

definition md5_block :: "md5_state \<Rightarrow> byte list \<Rightarrow> md5_state" where
  "md5_block st chunk =
     (case st of (a0, b0, c0, d0) \<Rightarrow>
        (case foldl (md5_step (words_of chunk)) st [0..<64] of
           (a, b, c, d) \<Rightarrow> (a0 + a, b0 + b, c0 + c, d0 + d)))"

fun md5_blocks :: "nat \<Rightarrow> md5_state \<Rightarrow> byte list \<Rightarrow> md5_state" where
  "md5_blocks 0 st bs = st"
| "md5_blocks (Suc n) st bs = md5_blocks n (md5_block st (take 64 bs)) (drop 64 bs)"

definition md5_Sum :: "byte list \<Rightarrow> byte list" where
  "md5_Sum m =
     (let p = md5_pad m in
      case md5_blocks (length p div 64) (0x67452301, 0xefcdab89, 0x98badcfe, 0x10325476) p of
        (a, b, c, d) \<Rightarrow> bytes_of32 a @ bytes_of32 b @ bytes_of32 c @ bytes_of32 d)"

text \<open>\<^verbatim>\<open>hex.EncodeToString\<close>: two digits of \<^verbatim>\<open>"0123456789abcdef"\<close> a byte, high nibble first.\<close>

definition hextable :: string where
  "hextable = ''0123456789abcdef''"

definition hex_EncodeToString :: "byte list \<Rightarrow> string" where
  "hex_EncodeToString src =
     concat (map (\<lambda>v. [hextable ! unat (drop_bit 4 v), hextable ! unat (v AND 0x0f)]) src)"

subsection \<open>strings.TrimSpace\<close>

text \<open>
  \<^verbatim>\<open>strings.TrimSpace\<close> removes the leading and the trailing white space "as defined
  by Unicode": the runes of \<^verbatim>\<open>unicode.IsSpace\<close>, which are U+0009 to U+000D, U+0020,
  U+0085, U+00A0, U+1680, U+2000 to U+200A, U+2028, U+2029, U+202F, U+205F and U+3000.
  On the bytes of the string these are the one-, two- and three-byte sequences below;
  a byte sequence that is not the UTF-8 encoding of such a rune decodes to another rune
  or to \<^verbatim>\<open>utf8.RuneError\<close>, neither of which is white space.
\<close>

definition asciiSpace :: "char \<Rightarrow> bool" where
  "asciiSpace c = (c \<in> {CHR 0x09, CHR 0x0A, CHR 0x0B, CHR 0x0C, CHR 0x0D, CHR 0x20})"

definition space2 :: "char \<Rightarrow> char \<Rightarrow> bool" where
  "space2 c0 c1 = (c0 = CHR 0xC2 \<and> (c1 = CHR 0x85 \<or> c1 = CHR 0xA0))"

definition space3 :: "char \<Rightarrow> char \<Rightarrow> char \<Rightarrow> bool" where
  "space3 c0 c1 c2 =
     ((c0 = CHR 0xE1 \<and> c1 = CHR 0x9A \<and> c2 = CHR 0x80)
      \<or> (c0 = CHR 0xE2 \<and> c1 = CHR 0x80
          \<and> (of_char c2 \<in> {0x80..(0x8A::nat)} \<or> c2 \<in> {CHR 0xA8, CHR 0xA9, CHR 0xAF}))
      \<or> (c0 = CHR 0xE2 \<and> c1 = CHR 0x81 \<and> c2 = CHR 0x9F)
      \<or> (c0 = CHR 0xE3 \<and> c1 = CHR 0x80 \<and> c2 = CHR 0x80))"

text \<open>The width in bytes of the white-space rune at the head of a string, 0 when there is none.\<close>

fun spaceWidth :: "string \<Rightarrow> nat" where
  "spaceWidth (c0 # c1 # c2 # cs) =
     (if asciiSpace c0 then 1 else if space2 c0 c1 then 2 else if space3 c0 c1 c2 then 3 else 0)"
| "spaceWidth [c0, c1] = (if asciiSpace c0 then 1 else if space2 c0 c1 then 2 else 0)"
| "spaceWidth [c0] = (if asciiSpace c0 then 1 else 0)"
| "spaceWidth [] = 0"

text \<open>The same at the tail of a string, read on the reversed string (last byte first).\<close>

fun spaceWidthRev :: "string \<Rightarrow> nat" where
  "spaceWidthRev (c2 # c1 # c0 # cs) =
     (if asciiSpace c2 then 1 else if space2 c1 c2 then 2 else if space3 c0 c1 c2 then 3 else 0)"
| "spaceWidthRev [c1, c0] = (if asciiSpace c1 then 1 else if space2 c0 c1 then 2 else 0)"
| "spaceWidthRev [c0] = (if asciiSpace c0 then 1 else 0)"
| "spaceWidthRev [] = 0"

lemma spaceWidth_le: "spaceWidth s \<le> length s"
  by (induction s rule: spaceWidth.induct) auto

lemma spaceWidthRev_le: "spaceWidthRev s \<le> length s"
  by (induction s rule: spaceWidthRev.induct) auto

function trimLeft :: "string \<Rightarrow> string" where
  "trimLeft s = (if spaceWidth s = 0 then s else trimLeft (drop (spaceWidth s) s))"
  by pat_completeness auto
termination
proof (relation "measure length")
  show "wf (measure length)" by simp
next
  fix s :: string
  assume "spaceWidth s \<noteq> 0"
  moreover have "spaceWidth s \<le> length s" by (rule spaceWidth_le)
  ultimately show "(drop (spaceWidth s) s, s) \<in> measure length" by simp
qed

function trimLeftRev :: "string \<Rightarrow> string" where
  "trimLeftRev s = (if spaceWidthRev s = 0 then s else trimLeftRev (drop (spaceWidthRev s) s))"
  by pat_completeness auto
termination
proof (relation "measure length")
  show "wf (measure length)" by simp
next
  fix s :: string
  assume "spaceWidthRev s \<noteq> 0"
  moreover have "spaceWidthRev s \<le> length s" by (rule spaceWidthRev_le)
  ultimately show "(drop (spaceWidthRev s) s, s) \<in> measure length" by simp
qed

declare trimLeft.simps [simp del] trimLeftRev.simps [simp del]

definition trimRight :: "string \<Rightarrow> string" where
  "trimRight s = rev (trimLeftRev (rev s))"

definition strings_TrimSpace :: "string \<Rightarrow> string" where
  "strings_TrimSpace s = trimRight (trimLeft s)"

text \<open>
  A string is white space only when it is a sequence of white-space runes, read rune by
  rune from its start; the empty string is one.
\<close>

function whitespace_only :: "string \<Rightarrow> bool" where
  "whitespace_only s =
     (if s = [] then True
      else if spaceWidth s = 0 then False
      else whitespace_only (drop (spaceWidth s) s))"
  by pat_completeness auto
termination
proof (relation "measure length")
  show "wf (measure length)" by simp
next
  fix s :: string
  assume "s \<noteq> []" and "spaceWidth s \<noteq> 0"
  moreover have "spaceWidth s \<le> length s" by (rule spaceWidth_le)
  ultimately show "(drop (spaceWidth s) s, s) \<in> measure length" by simp
qed

declare whitespace_only.simps [simp del]

section \<open>package file: the repository (internal/repository/file)\<close>

text \<open>
  The source holds this package twice: once with comments (the second part of
  \<^verbatim>\<open>internal/repository/error.go\<close> as given, lines 14-283) and once without (lines
  284-507).  The two texts are the same function by function, but for \<^verbatim>\<open>SaveFile\<close>:
  the commented copy takes the read lock before it looks the id up (line 114), the other
  copy takes the write lock there (line 363) and releases the read lock all the same.
  Each function below is both copies; \<^verbatim>\<open>SaveFile\<close> is modelled twice.

  The metadata cache \<^verbatim>\<open>map[string]*model.FileInfo\<close> is an association list with one
  pair a key: \<^const>\<open>map_of\<close> looks a key up, \<^const>\<open>AList.update\<close> is the assignment
  \<^verbatim>\<open>r.files[k] = v\<close>, \<^const>\<open>AList.delete\<close> is \<^verbatim>\<open>delete(r.files, k)\<close>.  Go leaves the
  order of a \<^verbatim>\<open>range\<close> over a map open; the list's order stands for one such order, and
  nothing below depends on it.

  \<^verbatim>\<open>filepath.Join(r.storagePath, fileID)\<close> is a parameter of every function that
  calls it, so nothing is assumed of how two names share a path.
\<close>

record Repository =
  storagePath :: string
  mutex :: RWMutex
  files :: "(string \<times> FileInfo) list"

text \<open>\<^verbatim>\<open>loadExistingFiles\<close>, lines 64-99 and 322-350.\<close>

fun loadEntries :: "DirEntry list \<Rightarrow> (string \<times> FileInfo) list \<Rightarrow> (string \<times> FileInfo) list" where
  "loadEntries [] fs = fs"
| "loadEntries (entry # entities) fs =
     (if entry_IsDir entry then loadEntries entities fs
      else (case entry_Info entry of
              Inl err \<Rightarrow> loadEntries entities fs
            | Inr info \<Rightarrow>
                loadEntries entities
                  (AList.update (entry_Name entry)
                     \<lparr>ID = entry_Name entry, Filename = entry_Name entry,
                      CreatedAt = info_ModTime info, UpdatedAt = info_ModTime info,
                      Size = info_Size info\<rparr> fs)))"

definition loadExistingFiles :: "world \<Rightarrow> Repository \<Rightarrow> go_error option \<times> Repository" where
  "loadExistingFiles w r =
     (case os_ReadDir w (storagePath r) of
        Inl err \<Rightarrow> (Some (OsError err), r)
      | Inr entities \<Rightarrow> (None, r\<lparr>files := loadEntries entities (files r)\<rparr>))"

text \<open>\<^verbatim>\<open>NewRepo\<close>, lines 42-60 and 305-320.\<close>

definition NewRepo :: "world \<Rightarrow> string \<Rightarrow> (go_error + Repository) \<times> world" where
  "NewRepo w path =
     (case os_MkdirAll w path of
        (Some err, w') \<Rightarrow>
          (Inl (Errorf ''FAILED TO CREATE STORAGE DIRECTORY: '' (OsError err)), w')
      | (None, w') \<Rightarrow>
          (case loadExistingFiles w' \<lparr>storagePath = path, mutex = RWMutex_zero, files = []\<rparr> of
             (Some err, repo) \<Rightarrow> (Inl (Errorf ''FAILED TO LOAD EXISTING FILES: '' err), w')
           | (None, repo) \<Rightarrow> (Inr repo, w')))"

text \<open>\<^verbatim>\<open>validateFile\<close>, lines 203-221 and 440-458.\<close>

definition maxFileSize :: nat where
  "maxFileSize = 10 * 1024 * 1024"

definition validateFile :: "string \<Rightarrow> byte list \<Rightarrow> go_error option" where
  "validateFile filename data =
     (if strings_TrimSpace filename = [] then Some ErrInvalidFilename
      else if maxFileSize < length data then Some ErrFileTooLarge
      else if length data = 0 then Some ErrFileIsEmpty
      else None)"

text \<open>
  \<^verbatim>\<open>SaveFile\<close>, the commented copy, lines 103-143.  \<open>now\<close> is what \<^verbatim>\<open>time.Now()\<close>
  returns at line 128.
\<close>

definition SaveFile ::
  "(string \<Rightarrow> string \<Rightarrow> string) \<Rightarrow> time \<Rightarrow> world \<Rightarrow> Repository \<Rightarrow> string \<Rightarrow> byte list
     \<Rightarrow> ((go_error + string) \<times> Repository \<times> world) outcome" where
  "SaveFile filepath_Join now w r filename data =
     (case validateFile filename data of
        Some err \<Rightarrow> Return (Inl err, r, w)
      | None \<Rightarrow>
          (let fileID = hex_EncodeToString (md5_Sum data) in
           and_then (RLock (mutex r)) (\<lambda>m1.
             if map_of (files r) fileID \<noteq> None
             then and_then (RUnlock m1) (\<lambda>m2. Return (Inr fileID, r\<lparr>mutex := m2\<rparr>, w))
             else and_then (RUnlock m1) (\<lambda>m2.
               (case os_WriteFile w (filepath_Join (storagePath r) fileID) data of
                  (Some err, w') \<Rightarrow>
                    Return (Inl (Errorf ''FAILED TO WRITE FILE: '' (OsError err)), r\<lparr>mutex := m2\<rparr>, w')
                | (None, w') \<Rightarrow>
                    (let fileInfo = \<lparr>ID = fileID, Filename = filename, CreatedAt = now,
                                     UpdatedAt = now, Size = of_nat (length data)\<rparr>
                     in and_then (Lock m2) (\<lambda>m3.
                        and_then (Unlock m3) (\<lambda>m4.
                          Return (Inr fileID,
                                  r\<lparr>mutex := m4, files := AList.update fileID fileInfo (files r)\<rparr>,
                                  w')))))))))"

text \<open>
  \<^verbatim>\<open>SaveFile\<close>, the copy without comments, lines 352-391: \<^verbatim>\<open>r.mutex.Lock()\<close> at line
  363, \<^verbatim>\<open>r.mutex.RUnlock()\<close> at lines 365 and 368.
\<close>

definition SaveFile_2 ::
  "(string \<Rightarrow> string \<Rightarrow> string) \<Rightarrow> time \<Rightarrow> world \<Rightarrow> Repository \<Rightarrow> string \<Rightarrow> byte list
     \<Rightarrow> ((go_error + string) \<times> Repository \<times> world) outcome" where
  "SaveFile_2 filepath_Join now w r filename data =
     (case validateFile filename data of
        Some err \<Rightarrow> Return (Inl err, r, w)
      | None \<Rightarrow>
          (let fileID = hex_EncodeToString (md5_Sum data) in
           and_then (Lock (mutex r)) (\<lambda>m1.
             if map_of (files r) fileID \<noteq> None
             then and_then (RUnlock m1) (\<lambda>m2. Return (Inr fileID, r\<lparr>mutex := m2\<rparr>, w))
             else and_then (RUnlock m1) (\<lambda>m2.
               (case os_WriteFile w (filepath_Join (storagePath r) fileID) data of
                  (Some err, w') \<Rightarrow>
                    Return (Inl (Errorf ''FAILED TO WRITE FILE: '' (OsError err)), r\<lparr>mutex := m2\<rparr>, w')
                | (None, w') \<Rightarrow>
                    (let fileInfo = \<lparr>ID = fileID, Filename = filename, CreatedAt = now,
                                     UpdatedAt = now, Size = of_nat (length data)\<rparr>
                     in and_then (Lock m2) (\<lambda>m3.
                        and_then (Unlock m3) (\<lambda>m4.
                          Return (Inr fileID,
                                  r\<lparr>mutex := m4, files := AList.update fileID fileInfo (files r)\<rparr>,
                                  w')))))))))"

text \<open>\<^verbatim>\<open>GetFile\<close>, lines 147-181 and 394-426.  It reads the disk and never writes it.\<close>

definition GetFile ::
  "(string \<Rightarrow> string \<Rightarrow> string) \<Rightarrow> world \<Rightarrow> Repository \<Rightarrow> string
     \<Rightarrow> ((go_error + File) \<times> Repository) outcome" where
  "GetFile filepath_Join w r fileID =
     (if fileID = [] then Return (Inl ErrInvalidFileID, r)
      else
        and_then (RLock (mutex r)) (\<lambda>m1.
        let found = map_of (files r) fileID in
        and_then (RUnlock m1) (\<lambda>m2.
          (case found of
             None \<Rightarrow> Return (Inl ErrFileNotFound, r\<lparr>mutex := m2\<rparr>)
           | Some fileInfo \<Rightarrow>
               (case os_ReadFile w (filepath_Join (storagePath r) fileID) of
                  Inl err \<Rightarrow>
                    if os_IsNotExist err
                    then and_then (Lock m2) (\<lambda>m3.
                         and_then (Unlock m3) (\<lambda>m4.
                           Return (Inl ErrFileNotFound,
                                   r\<lparr>mutex := m4, files := AList.delete fileID (files r)\<rparr>)))
                    else Return (Inl (Errorf ''FAILED TO READ FILE: '' (OsError err)), r\<lparr>mutex := m2\<rparr>)
                | Inr data \<Rightarrow> Return (Inr \<lparr>Info = fileInfo, Data = data\<rparr>, r\<lparr>mutex := m2\<rparr>))))))"

text \<open>\<^verbatim>\<open>ListFiles\<close>, lines 185-199 and 428-438: the write lock, released by \<^verbatim>\<open>defer\<close>.\<close>

definition ListFiles :: "Repository \<Rightarrow> ((go_error + FileInfo list) \<times> Repository) outcome" where
  "ListFiles r =
     and_then (Lock (mutex r)) (\<lambda>m1.
       (let listed = foldl (\<lambda>acc (k, fileInfo). acc @ [fileInfo]) [] (files r) in
        and_then (Unlock m1) (\<lambda>m2. Return (Inr listed, r\<lparr>mutex := m2\<rparr>))))"

text \<open>\<^verbatim>\<open>GetFileInfo\<close>, lines 225-242 and 460-474.\<close>

definition GetFileInfo :: "Repository \<Rightarrow> string \<Rightarrow> ((go_error + FileInfo) \<times> Repository) outcome" where
  "GetFileInfo r fileID =
     (if fileID = [] then Return (Inl ErrInvalidFileID, r)
      else
        and_then (RLock (mutex r)) (\<lambda>m1.
          (case map_of (files r) fileID of
             None \<Rightarrow> and_then (RUnlock m1) (\<lambda>m2. Return (Inl ErrFileNotFound, r\<lparr>mutex := m2\<rparr>))
           | Some fileInfo \<Rightarrow> and_then (RUnlock m1) (\<lambda>m2. Return (Inr fileInfo, r\<lparr>mutex := m2\<rparr>)))))"

text \<open>\<^verbatim>\<open>DeleteFile\<close>, lines 246-264 and 476-493.\<close>

definition DeleteFile ::
  "(string \<Rightarrow> string \<Rightarrow> string) \<Rightarrow> world \<Rightarrow> Repository \<Rightarrow> string
     \<Rightarrow> (go_error option \<times> Repository \<times> world) outcome" where
  "DeleteFile filepath_Join w r fileID =
     (if fileID = [] then Return (Some ErrInvalidFileID, r, w)
      else
        (case os_Remove w (filepath_Join (storagePath r) fileID) of
           (err, w') \<Rightarrow>
             if (case err of None \<Rightarrow> False | Some e \<Rightarrow> \<not> os_IsNotExist e)
             then Return (Some ErrFailToDeleteFile, r, w')
             else
               and_then (Lock (mutex r)) (\<lambda>m1.
               and_then (Unlock m1) (\<lambda>m2.
                 Return (None, r\<lparr>mutex := m2, files := AList.delete fileID (files r)\<rparr>, w')))))"

text \<open>
  \<^verbatim>\<open>GetStats\<close>, lines 268-283 and 495-507.  \<^verbatim>\<open>totalSize\<close> is an \<^verbatim>\<open>int64\<close>: the
  additions wrap.
\<close>

definition GetStats :: "Repository \<Rightarrow> ((go_error + nat \<times> int64) \<times> Repository) outcome" where
  "GetStats r =
     and_then (RLock (mutex r)) (\<lambda>m1.
       (let fileCount = length (files r);
            totalSize = foldl (\<lambda>total (k, fileInfo). total + Size fileInfo) 0 (files r)
        in and_then (RUnlock m1) (\<lambda>m2. Return (Inr (fileCount, totalSize), r\<lparr>mutex := m2\<rparr>))))"

text \<open>
  What \<^verbatim>\<open>loadExistingFiles\<close> makes of one directory entry: nothing of a directory
  and nothing of an entry whose \<^verbatim>\<open>Info()\<close> fails, and of any other entry the key and
  the record under which it is indexed.
\<close>

definition indexed_entry :: "DirEntry \<Rightarrow> (string \<times> FileInfo) option" where
  "indexed_entry entry =
     (if entry_IsDir entry then None
      else (case entry_Info entry of
              Inl err \<Rightarrow> None
            | Inr info \<Rightarrow>
                Some (entry_Name entry,
                      \<lparr>ID = entry_Name entry, Filename = entry_Name entry,
                       CreatedAt = info_ModTime info, UpdatedAt = info_ModTime info,
                       Size = info_Size info\<rparr>)))"

text \<open>
  A run of uploads, one after the other, each of which returned an id: the ids, and the
  repository and the disk after the last.  \<open>None\<close> when one of them did not return an
  id.  Every upload comes with the time \<^verbatim>\<open>time.Now()\<close> gives it.
\<close>

fun uploads ::
  "(string \<Rightarrow> string \<Rightarrow> string) \<Rightarrow> (time \<times> string \<times> byte list) list \<Rightarrow> world \<Rightarrow> Repository
     \<Rightarrow> (string list \<times> Repository \<times> world) option" where
  "uploads J [] w r = Some ([], r, w)"
| "uploads J ((now, filename, data) # rest) w r =
     (case SaveFile J now w r filename data of
        Return (Inr fileID, r', w') \<Rightarrow>
          (case uploads J rest w' r' of
             Some (ids, r'', w'') \<Rightarrow> Some (fileID # ids, r'', w'')
           | None \<Rightarrow> None)
      | _ \<Rightarrow> None)"

text \<open>The key and the record that a completed upload of new content adds to the index.\<close>

definition uploaded :: "time \<times> string \<times> byte list \<Rightarrow> string \<times> FileInfo" where
  "uploaded u =
     (case u of (now, filename, data) \<Rightarrow>
        (hex_EncodeToString (md5_Sum data),
         \<lparr>ID = hex_EncodeToString (md5_Sum data), Filename = filename, CreatedAt = now, UpdatedAt = now,
          Size = of_nat (length data)\<rparr>))"

section \<open>package file: the controller (internal/controller/file)\<close>

text \<open>
  controller.go, lines 1-120, and its copy without comments (error.go, lines 508-600).
  A context is the value of \<^verbatim>\<open>ctx.Err()\<close> once \<^verbatim>\<open>ctx.Done()\<close> is closed, and
  \<open>None\<close> before.  \<^verbatim>\<open>UploadFile\<close> calls the \<^verbatim>\<open>SaveFile\<close> of the repository it
  holds, which is one of the two copies: it is the first argument.
\<close>

definition Controller_UploadFile ::
  "(world \<Rightarrow> Repository \<Rightarrow> string \<Rightarrow> byte list \<Rightarrow> ((go_error + string) \<times> Repository \<times> world) outcome)
     \<Rightarrow> ctx_error option \<Rightarrow> world \<Rightarrow> Repository \<Rightarrow> UploadRequest
     \<Rightarrow> ((go_error + string) \<times> Repository \<times> world) outcome" where
  "Controller_UploadFile repo_SaveFile ctx w r req =
     (case ctx of
        Some e \<Rightarrow> Return (Inl (CtxError e), r, w)
      | None \<Rightarrow>
          and_then (repo_SaveFile w r (req_Filename req) (req_Data req)) (\<lambda>(res, r', w').
            (case res of
               Inl err \<Rightarrow> Return (Inl (Errorf ''FAILED TO SAVE FILE: '' err), r', w')
             | Inr fileID \<Rightarrow> Return (Inr fileID, r', w'))))"

definition Controller_GetFile ::
  "(string \<Rightarrow> string \<Rightarrow> string) \<Rightarrow> ctx_error option \<Rightarrow> world \<Rightarrow> Repository \<Rightarrow> string
     \<Rightarrow> ((go_error + GetResponse) \<times> Repository) outcome" where
  "Controller_GetFile filepath_Join ctx w r fileID =
     (case ctx of
        Some e \<Rightarrow> Return (Inl (CtxError e), r)
      | None \<Rightarrow>
          and_then (GetFile filepath_Join w r fileID) (\<lambda>(res, r').
            (case res of
               Inl err \<Rightarrow> Return (Inl (Errorf ''FAILED TO GET FILE: '' err), r')
             | Inr file \<Rightarrow>
                 Return (Inr \<lparr>resp_Filename = Filename (Info file), resp_Data = Data file\<rparr>, r'))))"

definition Controller_ListFiles ::
  "ctx_error option \<Rightarrow> Repository \<Rightarrow> ((go_error + FileInfo list) \<times> Repository) outcome" where
  "Controller_ListFiles ctx r =
     (case ctx of
        Some e \<Rightarrow> Return (Inl (CtxError e), r)
      | None \<Rightarrow>
          and_then (ListFiles r) (\<lambda>(res, r').
            (case res of
               Inl err \<Rightarrow> Return (Inl (Errorf ''FAILED TO FIND FILES: '' err), r')
             | Inr listed \<Rightarrow> Return (Inr listed, r'))))"

section \<open>package grpc: the handler (internal/handler/grpc)\<close>

text \<open>
  controller.go as given, lines 121-233, and the commented copy, lines 234-375.  A gRPC
  status is a code of \<^verbatim>\<open>google.golang.org/grpc/codes\<close> and a message.
\<close>

datatype code =
    codes_OK | codes_Canceled | codes_Unknown | codes_InvalidArgument
  | codes_DeadlineExceeded | codes_NotFound | codes_AlreadyExists | codes_PermissionDenied
  | codes_ResourceExhausted | codes_FailedPrecondition | codes_Aborted | codes_OutOfRange
  | codes_Unimplemented | codes_Internal | codes_Unavailable | codes_DataLoss
  | codes_Unauthenticated

datatype status = Status (status_code: code) (status_message: string)

text \<open>
  \<^verbatim>\<open>handleError\<close>, lines 218-233 and 349-375: a \<^verbatim>\<open>switch err\<close> whose cases are the
  sentinel variables, so an error is matched when it is that very value.
\<close>

definition handleError :: "go_error \<Rightarrow> status" where
  "handleError err =
     (if err = ErrFileNotFound then Status codes_NotFound ''FILE NOT FOUND''
      else if err = ErrInvalidFileID then Status codes_InvalidArgument ''INVALID FILE ID''
      else if err = ErrFileTooLarge then Status codes_InvalidArgument ''FILE IS TOO LARGE''
      else if err = ErrInvalidFilename then Status codes_InvalidArgument ''INVALID FILENAME''
      else if err = ErrStorageUnavailable then Status codes_Internal ''STORAGE UNAVAILABLE''
      else Status codes_Internal (''INTERNAL ERROR: '' @ Error err))"

text \<open>\<^verbatim>\<open>Handler.UploadFile\<close>, lines 147-171 and 266-292.\<close>

definition Handler_UploadFile ::
  "(world \<Rightarrow> Repository \<Rightarrow> string \<Rightarrow> byte list \<Rightarrow> ((go_error + string) \<times> Repository \<times> world) outcome)
     \<Rightarrow> ctx_error option \<Rightarrow> world \<Rightarrow> Repository \<Rightarrow> string \<Rightarrow> byte list
     \<Rightarrow> ((status + string) \<times> Repository \<times> world) outcome" where
  "Handler_UploadFile repo_SaveFile ctx w r filename data =
     (if filename = [] then Return (Inl (Status codes_InvalidArgument ''filename is required''), r, w)
      else if length data = 0 then Return (Inl (Status codes_InvalidArgument ''data is required''), r, w)
      else
        and_then
          (Controller_UploadFile repo_SaveFile ctx w r \<lparr>req_Filename = filename, req_Data = data\<rparr>)
          (\<lambda>(res, r', w').
             (case res of
                Inl err \<Rightarrow> Return (Inl (handleError err), r', w')
              | Inr fileID \<Rightarrow> Return (Inr fileID, r', w'))))"

text \<open>\<^verbatim>\<open>Handler.GetFile\<close>, lines 173-193 and 296-318.\<close>

definition Handler_GetFile ::
  "(string \<Rightarrow> string \<Rightarrow> string) \<Rightarrow> ctx_error option \<Rightarrow> world \<Rightarrow> Repository \<Rightarrow> string
     \<Rightarrow> ((status + GetResponse) \<times> Repository) outcome" where
  "Handler_GetFile filepath_Join ctx w r fileId =
     (if fileId = [] then Return (Inl (Status codes_InvalidArgument ''file_id is required''), r)
      else
        and_then (Controller_GetFile filepath_Join ctx w r fileId) (\<lambda>(res, r').
          (case res of
             Inl err \<Rightarrow> Return (Inl (handleError err), r')
           | Inr resp \<Rightarrow> Return (Inr resp, r'))))"

text \<open>
  What the gRPC server sends for the error that an interceptor or a handler returns: the
  status the error carries; for an error that carries none, the code
  \<^verbatim>\<open>DeadlineExceeded\<close> or \<^verbatim>\<open>Canceled\<close> when it is or wraps that error of the
  context, and the code \<^verbatim>\<open>Unknown\<close> otherwise, each with the error's text
  (\<^verbatim>\<open>status.FromError\<close> and \<^verbatim>\<open>status.FromContextError\<close> of grpc-go).
\<close>

datatype rpc_error = StatusError status | PlainError go_error

fun errors_Is :: "go_error \<Rightarrow> go_error \<Rightarrow> bool" where
  "errors_Is (Errorf p e) target = (Errorf p e = target \<or> errors_Is e target)"
| "errors_Is e target = (e = target)"

definition server_status :: "rpc_error \<Rightarrow> status" where
  "server_status err =
     (case err of
        StatusError st \<Rightarrow> st
      | PlainError e \<Rightarrow>
          if errors_Is e (CtxError DeadlineExceeded) then Status codes_DeadlineExceeded (Error e)
          else if errors_Is e (CtxError Canceled) then Status codes_Canceled (Error e)
          else Status codes_Unknown (Error e))"

section \<open>package middleware: the concurrency limiter (internal/middleware)\<close>

text \<open>
  pkg/model/file.go as given holds the limiter twice: with comments (lines 40-219) and
  without (lines 220-336).  The copies differ in the texts of the rejections, in two
  \<^verbatim>\<open>time.Sleep\<close> calls of the commented copy (which change no state), and in
  \<^verbatim>\<open>handleList\<close>: the commented copy sends to and receives from
  \<^verbatim>\<open>cl.listSemaphore\<close> (lines 141 and 147), the other copy uses
  \<^verbatim>\<open>cl.uploadSemaphore\<close> (lines 287 and 290).

  A semaphore is a buffered channel of \<^verbatim>\<open>struct{}\<close>: its capacity and the number of
  values it holds.  The statistics are changed under \<^verbatim>\<open>stats.mutex\<close>, always locked
  and unlocked in the same function in matching mode; the counters alone are modelled.
\<close>

record chan =
  chan_cap :: nat
  chan_len :: nat

definition make_chan :: "nat \<Rightarrow> chan" where
  "make_chan n = \<lparr>chan_cap = n, chan_len = 0\<rparr>"

definition chan_send :: "chan \<Rightarrow> chan" where
  "chan_send c = c\<lparr>chan_len := Suc (chan_len c)\<rparr>"

text \<open>A receive from an empty channel waits.\<close>

definition chan_recv :: "chan \<Rightarrow> chan outcome" where
  "chan_recv c = (if chan_len c = 0 then Blocked else Return (c\<lparr>chan_len := chan_len c - 1\<rparr>))"

record Stats =
  uploadActive :: int
  listActive :: int
  totalUploads :: int64
  totalLists :: int64

record ConcurrencyLimiter =
  uploadSemaphore :: chan
  listSemaphore :: chan
  stats :: Stats

definition NewConcurrencyLimiter :: ConcurrencyLimiter where
  "NewConcurrencyLimiter =
     \<lparr>uploadSemaphore = make_chan 10, listSemaphore = make_chan 100,
      stats = \<lparr>uploadActive = 0, listActive = 0, totalUploads = 0, totalLists = 0\<rparr>\<rparr>"

definition updateUploadStats :: "int \<Rightarrow> ConcurrencyLimiter \<Rightarrow> ConcurrencyLimiter" where
  "updateUploadStats delta cl =
     cl\<lparr>stats := (stats cl)
          \<lparr>uploadActive := uploadActive (stats cl) + delta,
           totalUploads := (if 0 < delta then totalUploads (stats cl) + 1 else totalUploads (stats cl))\<rparr>\<rparr>"

definition updateListStats :: "int \<Rightarrow> ConcurrencyLimiter \<Rightarrow> ConcurrencyLimiter" where
  "updateListStats delta cl =
     cl\<lparr>stats := (stats cl)
          \<lparr>listActive := listActive (stats cl) + delta,
           totalLists := (if 0 < delta then totalLists (stats cl) + 1 else totalLists (stats cl))\<rparr>\<rparr>"

text \<open>
  The \<^verbatim>\<open>select\<close> of both handlers has a send to the semaphore, a receive from
  \<^verbatim>\<open>ctx.Done()\<close> and a \<^verbatim>\<open>default\<close>.  Go takes one of the cases that can proceed, chosen
  at random when both can (\<open>pick\<close> says whether the send wins then), and the default
  when neither can.
\<close>

datatype select_case = SendCase | DoneCase ctx_error | DefaultCase

definition select_semaphore :: "chan \<Rightarrow> ctx_error option \<Rightarrow> bool \<Rightarrow> select_case" where
  "select_semaphore sem ctx pick =
     (case ctx of
        None \<Rightarrow> if chan_len sem < chan_cap sem then SendCase else DefaultCase
      | Some e \<Rightarrow> if chan_len sem < chan_cap sem \<and> pick then SendCase else DoneCase e)"

text \<open>
  A handler of the limiter runs in three parts: the \<^verbatim>\<open>select\<close> with the bookkeeping
  of an admission, the wrapped gRPC handler, and the deferred function.  Other requests
  run between the parts, so the first and the last are functions of their own:
  \<open>_select\<close> returns the error of a refused request, or \<open>None\<close> for an admitted one
  whose gRPC handler runs next; \<open>_deferred\<close> is what an admitted request does when it
  leaves (both copies of \<^verbatim>\<open>handleUploadDownload\<close> have the same).
\<close>

text \<open>\<^verbatim>\<open>handleUploadDownload\<close>, the commented copy, lines 107-134.\<close>

definition handleUploadDownload_select ::
  "ctx_error option \<Rightarrow> bool \<Rightarrow> ConcurrencyLimiter \<Rightarrow> go_error option \<times> ConcurrencyLimiter" where
  "handleUploadDownload_select ctx pick cl =
     (case select_semaphore (uploadSemaphore cl) ctx pick of
        SendCase \<Rightarrow> (None, updateUploadStats 1 (cl\<lparr>uploadSemaphore := chan_send (uploadSemaphore cl)\<rparr>))
      | DoneCase e \<Rightarrow> (Some (CtxError e), cl)
      | DefaultCase \<Rightarrow> (Some (ErrorString ''TOO MANY CONC UPLOAD/DOWNLOAD REQUESTS, MAX 10''), cl))"

definition handleUploadDownload_deferred :: "ConcurrencyLimiter \<Rightarrow> ConcurrencyLimiter outcome" where
  "handleUploadDownload_deferred cl =
     and_then (chan_recv (uploadSemaphore cl)) (\<lambda>sem.
       Return (updateUploadStats (- 1) (cl\<lparr>uploadSemaphore := sem\<rparr>)))"

text \<open>\<^verbatim>\<open>handleUploadDownload\<close>, the copy without comments, lines 266-283.\<close>

definition handleUploadDownload_2_select ::
  "ctx_error option \<Rightarrow> bool \<Rightarrow> ConcurrencyLimiter \<Rightarrow> go_error option \<times> ConcurrencyLimiter" where
  "handleUploadDownload_2_select ctx pick cl =
     (case select_semaphore (uploadSemaphore cl) ctx pick of
        SendCase \<Rightarrow> (None, updateUploadStats 1 (cl\<lparr>uploadSemaphore := chan_send (uploadSemaphore cl)\<rparr>))
      | DoneCase e \<Rightarrow> (Some (CtxError e), cl)
      | DefaultCase \<Rightarrow> (Some (ErrorString ''Too many conc upload/download requests, max 10''), cl))"

text \<open>\<^verbatim>\<open>handleList\<close>, the commented copy, lines 138-165.\<close>

definition handleList_select ::
  "ctx_error option \<Rightarrow> bool \<Rightarrow> ConcurrencyLimiter \<Rightarrow> go_error option \<times> ConcurrencyLimiter" where
  "handleList_select ctx pick cl =
     (case select_semaphore (listSemaphore cl) ctx pick of
        SendCase \<Rightarrow> (None, updateListStats 1 (cl\<lparr>listSemaphore := chan_send (listSemaphore cl)\<rparr>))
      | DoneCase e \<Rightarrow> (Some (CtxError e), cl)
      | DefaultCase \<Rightarrow> (Some (ErrorString ''TOO MANY CONC LIST REQUESTS, MAX 100''), cl))"

definition handleList_deferred :: "ConcurrencyLimiter \<Rightarrow> ConcurrencyLimiter outcome" where
  "handleList_deferred cl =
     and_then (chan_recv (listSemaphore cl)) (\<lambda>sem.
       Return (updateListStats (- 1) (cl\<lparr>listSemaphore := sem\<rparr>)))"

text \<open>\<^verbatim>\<open>handleList\<close>, the copy without comments, lines 285-302.\<close>

definition handleList_2_select ::
  "ctx_error option \<Rightarrow> bool \<Rightarrow> ConcurrencyLimiter \<Rightarrow> go_error option \<times> ConcurrencyLimiter" where
  "handleList_2_select ctx pick cl =
     (case select_semaphore (uploadSemaphore cl) ctx pick of
        SendCase \<Rightarrow> (None, updateListStats 1 (cl\<lparr>uploadSemaphore := chan_send (uploadSemaphore cl)\<rparr>))
      | DoneCase e \<Rightarrow> (Some (CtxError e), cl)
      | DefaultCase \<Rightarrow> (Some (ErrorString ''Too many conc list requests, max 10''), cl))"

definition handleList_2_deferred :: "ConcurrencyLimiter \<Rightarrow> ConcurrencyLimiter outcome" where
  "handleList_2_deferred cl =
     and_then (chan_recv (uploadSemaphore cl)) (\<lambda>sem.
       Return (updateListStats (- 1) (cl\<lparr>uploadSemaphore := sem\<rparr>)))"

text \<open>
  Concurrent calls: every request of the list has run its \<^verbatim>\<open>select\<close> before any of
  them leaves.  Each request comes with its context and with the choice its
  \<^verbatim>\<open>select\<close> would make between two ready cases.  The result lists, request by
  request, \<open>None\<close> for an admission and the error of a refusal.
\<close>

fun concurrently ::
  "(ctx_error option \<Rightarrow> bool \<Rightarrow> ConcurrencyLimiter \<Rightarrow> go_error option \<times> ConcurrencyLimiter)
     \<Rightarrow> (ctx_error option \<times> bool) list \<Rightarrow> ConcurrencyLimiter
     \<Rightarrow> go_error option list \<times> ConcurrencyLimiter" where
  "concurrently enter [] cl = ([], cl)"
| "concurrently enter ((ctx, pick) # calls) cl =
     (case enter ctx pick cl of
        (res, cl') \<Rightarrow> (case concurrently enter calls cl' of (rs, cl'') \<Rightarrow> (res # rs, cl'')))"

definition admissions :: "go_error option list \<Rightarrow> nat" where
  "admissions rs = length (filter (\<lambda>res. res = None) rs)"

definition rejections :: "go_error option list \<Rightarrow> nat" where
  "rejections rs = length (filter (\<lambda>res. res \<noteq> None) rs)"

text \<open>
  The states that the limiter reaches from \<^verbatim>\<open>NewConcurrencyLimiter()\<close>: requests
  arrive in any order, with any context, and run their \<^verbatim>\<open>select\<close>; an admitted
  request that has not left yet runs its deferred function and leaves.  The counters
  \<^verbatim>\<open>uploadActive\<close> and \<^verbatim>\<open>listActive\<close> say whether a request of the kind is still
  there.  \<open>reachable\<close> is the limiter of the commented copy, \<open>reachable_2\<close> the limiter
  of the copy without comments.
\<close>

inductive reachable :: "ConcurrencyLimiter \<Rightarrow> bool" where
  reachable_new: "reachable NewConcurrencyLimiter"
| reachable_transfer:
    "reachable cl \<Longrightarrow> handleUploadDownload_select ctx pick cl = (res, cl') \<Longrightarrow> reachable cl'"
| reachable_transfer_left:
    "reachable cl \<Longrightarrow> 0 < uploadActive (stats cl)
       \<Longrightarrow> handleUploadDownload_deferred cl = Return cl' \<Longrightarrow> reachable cl'"
| reachable_list:
    "reachable cl \<Longrightarrow> handleList_select ctx pick cl = (res, cl') \<Longrightarrow> reachable cl'"
| reachable_list_left:
    "reachable cl \<Longrightarrow> 0 < listActive (stats cl)
       \<Longrightarrow> handleList_deferred cl = Return cl' \<Longrightarrow> reachable cl'"

inductive reachable_2 :: "ConcurrencyLimiter \<Rightarrow> bool" where
  reachable_2_new: "reachable_2 NewConcurrencyLimiter"
| reachable_2_transfer:
    "reachable_2 cl \<Longrightarrow> handleUploadDownload_2_select ctx pick cl = (res, cl') \<Longrightarrow> reachable_2 cl'"
| reachable_2_transfer_left:
    "reachable_2 cl \<Longrightarrow> 0 < uploadActive (stats cl)
       \<Longrightarrow> handleUploadDownload_deferred cl = Return cl' \<Longrightarrow> reachable_2 cl'"
| reachable_2_list:
    "reachable_2 cl \<Longrightarrow> handleList_2_select ctx pick cl = (res, cl') \<Longrightarrow> reachable_2 cl'"
| reachable_2_list_left:
    "reachable_2 cl \<Longrightarrow> 0 < listActive (stats cl)
       \<Longrightarrow> handleList_2_deferred cl = Return cl' \<Longrightarrow> reachable_2 cl'"

section \<open>Values for the examples\<close>

text \<open>
  A join that puts a slash between a directory and a name, a store that holds one
  object under the key \<open>ab\<close>, and the index that records it.
\<close>

definition slashJoin :: "string \<Rightarrow> string \<Rightarrow> string" where
  "slashJoin dir name = dir @ ''/'' @ name"

definition repo_ab :: Repository where
  "repo_ab =
     \<lparr>storagePath = ''store'', mutex = RWMutex_zero,
      files = [(''ab'', \<lparr>ID = ''ab'', Filename = ''a.txt'', CreatedAt = 5, UpdatedAt = 5, Size = 1\<rparr>)]\<rparr>"

definition world_ab :: world where
  "world_ab = \<lparr>objects = [''store/ab'' \<mapsto> [0x61]], dirs = Map.empty, faults = Map.empty\<rparr>"

definition world_ab_fault :: world where
  "world_ab_fault = world_ab\<lparr>faults := [''store/ab'' \<mapsto> ''permission denied'']\<rparr>"

definition world_empty :: world where
  "world_empty = \<lparr>objects = Map.empty, dirs = Map.empty, faults = Map.empty\<rparr>"

definition repo_empty :: Repository where
  "repo_empty = \<lparr>storagePath = ''store'', mutex = RWMutex_zero, files = []\<rparr>"

text \<open>
  The store after \<open>a.txt\<close> with the one byte \<open>a\<close> was saved into the empty store at
  time 7; the id is the MD5 digest of that byte in hexadecimal.
\<close>

definition id_a :: string where
  "id_a = ''0cc175b9c0f1b6a831c399e269772661''"

definition repo_a :: Repository where
  "repo_a =
     \<lparr>storagePath = ''store'', mutex = RWMutex_zero,
      files = [(id_a, \<lparr>ID = id_a, Filename = ''a.txt'', CreatedAt = 7, UpdatedAt = 7, Size = 1\<rparr>)]\<rparr>"

definition world_a :: world where
  "world_a = \<lparr>objects = [''store/'' @ id_a \<mapsto> [0x61]], dirs = Map.empty, faults = Map.empty\<rparr>"

text \<open>
  A storage directory with a file \<open>ab\<close> of one byte, a subdirectory \<open>tmp\<close> and a file
  \<open>zz\<close> whose \<^verbatim>\<open>Info()\<close> fails; and one that holds the unreadable file alone.
\<close>

definition entry_ab :: DirEntry where
  "entry_ab = \<lparr>entry_Name = ''ab'', entry_IsDir = False,
                entry_Info = Inr \<lparr>info_ModTime = 5, info_Size = 1\<rparr>\<rparr>"

definition entry_tmp :: DirEntry where
  "entry_tmp = \<lparr>entry_Name = ''tmp'', entry_IsDir = True,
                 entry_Info = Inr \<lparr>info_ModTime = 6, info_Size = 4096\<rparr>\<rparr>"

definition entry_zz :: DirEntry where
  "entry_zz = \<lparr>entry_Name = ''zz'', entry_IsDir = False,
                entry_Info = Inl (ErrOther ''lstat store/zz: permission denied'')\<rparr>"

definition world_dir :: world where
  "world_dir = \<lparr>objects = [''store/ab'' \<mapsto> [0x61]],
                 dirs = [''store'' \<mapsto> [entry_ab, entry_tmp, entry_zz]], faults = Map.empty\<rparr>"

definition world_zz :: world where
  "world_zz = \<lparr>objects = Map.empty, dirs = [''store'' \<mapsto> [entry_zz]], faults = Map.empty\<rparr>"

definition repo_restart :: Repository where
  "repo_restart =
     \<lparr>storagePath = ''store'', mutex = RWMutex_zero,
      files = [(''ab'', \<lparr>ID = ''ab'', Filename = ''ab'', CreatedAt = 5, UpdatedAt = 5, Size = 1\<rparr>)]\<rparr>"

text \<open>
  Two messages of 128 bytes that differ in six bytes and have the same MD5 digest (the
  collision published by Wang, Feng, Lai and Yu in 2004), and the store after the first
  was saved as \<open>a\<close> into the empty store at time 1.
\<close>

definition collision_a :: "byte list" where
  "collision_a = [
      0xd1, 0x31, 0xdd, 0x02, 0xc5, 0xe6, 0xee, 0xc4, 0x69, 0x3d, 0x9a, 0x06, 0x98, 0xaf, 0xf9, 0x5c,
      0x2f, 0xca, 0xb5, 0x87, 0x12, 0x46, 0x7e, 0xab, 0x40, 0x04, 0x58, 0x3e, 0xb8, 0xfb, 0x7f, 0x89,
      0x55, 0xad, 0x34, 0x06, 0x09, 0xf4, 0xb3, 0x02, 0x83, 0xe4, 0x88, 0x83, 0x25, 0x71, 0x41, 0x5a,
      0x08, 0x51, 0x25, 0xe8, 0xf7, 0xcd, 0xc9, 0x9f, 0xd9, 0x1d, 0xbd, 0xf2, 0x80, 0x37, 0x3c, 0x5b,
      0xd8, 0x82, 0x3e, 0x31, 0x56, 0x34, 0x8f, 0x5b, 0xae, 0x6d, 0xac, 0xd4, 0x36, 0xc9, 0x19, 0xc6,
      0xdd, 0x53, 0xe2, 0xb4, 0x87, 0xda, 0x03, 0xfd, 0x02, 0x39, 0x63, 0x06, 0xd2, 0x48, 0xcd, 0xa0,
      0xe9, 0x9f, 0x33, 0x42, 0x0f, 0x57, 0x7e, 0xe8, 0xce, 0x54, 0xb6, 0x70, 0x80, 0xa8, 0x0d, 0x1e,
      0xc6, 0x98, 0x21, 0xbc, 0xb6, 0xa8, 0x83, 0x93, 0x96, 0xf9, 0x65, 0x2b, 0x6f, 0xf7, 0x2a, 0x70]"

definition collision_b :: "byte list" where
  "collision_b = [
      0xd1, 0x31, 0xdd, 0x02, 0xc5, 0xe6, 0xee, 0xc4, 0x69, 0x3d, 0x9a, 0x06, 0x98, 0xaf, 0xf9, 0x5c,
      0x2f, 0xca, 0xb5, 0x07, 0x12, 0x46, 0x7e, 0xab, 0x40, 0x04, 0x58, 0x3e, 0xb8, 0xfb, 0x7f, 0x89,
      0x55, 0xad, 0x34, 0x06, 0x09, 0xf4, 0xb3, 0x02, 0x83, 0xe4, 0x88, 0x83, 0x25, 0xf1, 0x41, 0x5a,
      0x08, 0x51, 0x25, 0xe8, 0xf7, 0xcd, 0xc9, 0x9f, 0xd9, 0x1d, 0xbd, 0x72, 0x80, 0x37, 0x3c, 0x5b,
      0xd8, 0x82, 0x3e, 0x31, 0x56, 0x34, 0x8f, 0x5b, 0xae, 0x6d, 0xac, 0xd4, 0x36, 0xc9, 0x19, 0xc6,
      0xdd, 0x53, 0xe2, 0x34, 0x87, 0xda, 0x03, 0xfd, 0x02, 0x39, 0x63, 0x06, 0xd2, 0x48, 0xcd, 0xa0,
      0xe9, 0x9f, 0x33, 0x42, 0x0f, 0x57, 0x7e, 0xe8, 0xce, 0x54, 0xb6, 0x70, 0x80, 0x28, 0x0d, 0x1e,
      0xc6, 0x98, 0x21, 0xbc, 0xb6, 0xa8, 0x83, 0x93, 0x96, 0xf9, 0x65, 0xab, 0x6f, 0xf7, 0x2a, 0x70]"

definition id_c :: string where
  "id_c = ''79054025255fb1a26e4bc422aef54eb4''"

definition repo_c :: Repository where
  "repo_c =
     \<lparr>storagePath = ''store'', mutex = RWMutex_zero,
      files = [(id_c, \<lparr>ID = id_c, Filename = ''a'', CreatedAt = 1, UpdatedAt = 1, Size = 128\<rparr>)]\<rparr>"

definition world_c :: world where
  "world_c = \<lparr>objects = [''store/'' @ id_c \<mapsto> collision_a], dirs = Map.empty, faults = Map.empty\<rparr>"

text \<open>The store after \<open>b.txt\<close> with the one byte \<open>b\<close> was saved next, at time 8.\<close>

definition id_b :: string where
  "id_b = ''92eb5ffee6ae2fec3ad71c777531578f''"

definition repo_a_b :: Repository where
  "repo_a_b =
     \<lparr>storagePath = ''store'', mutex = RWMutex_zero,
      files = [(id_a, \<lparr>ID = id_a, Filename = ''a.txt'', CreatedAt = 7, UpdatedAt = 7, Size = 1\<rparr>),
               (id_b, \<lparr>ID = id_b, Filename = ''b.txt'', CreatedAt = 8, UpdatedAt = 8, Size = 1\<rparr>)]\<rparr>"

definition world_a_b :: world where
  "world_a_b = \<lparr>objects = [''store/'' @ id_a \<mapsto> [0x61], ''store/'' @ id_b \<mapsto> [0x62]],
                 dirs = Map.empty, faults = Map.empty\<rparr>"

text \<open>The limiter with ten transfers admitted and none finished.\<close>

definition limiter_busy :: ConcurrencyLimiter where
  "limiter_busy =
     \<lparr>uploadSemaphore = \<lparr>chan_cap = 10, chan_len = 10\<rparr>, listSemaphore = make_chan 100,
      stats = \<lparr>uploadActive = 10, listActive = 0, totalUploads = 10, totalLists = 0\<rparr>\<rparr>"

section \<open>The locks of the repository\<close>

text \<open>
  A repository is idle when no call holds its lock: \<open>mutex r = RWMutex_zero\<close>.  From
  an idle lock a matching pair of calls succeeds and leaves the lock idle.
\<close>

lemma mutex_idle_update [simp]: "mutex r = RWMutex_zero \<Longrightarrow> r\<lparr>mutex := RWMutex_zero\<rparr> = r"
  by (cases r) simp

lemma Lock_Unlock_idle [simp]:
  "and_then (Lock RWMutex_zero) (\<lambda>m1. and_then (Unlock m1) f) = f RWMutex_zero"
  by (simp add: Lock_def Unlock_def RWMutex_zero_def)

lemma RLock_RUnlock_idle [simp]:
  "and_then (RLock RWMutex_zero) (\<lambda>m1. and_then (RUnlock m1) f) = f RWMutex_zero"
  by (simp add: RLock_def RUnlock_def RWMutex_zero_def)

section \<open>DeleteFile\<close>

lemma os_Remove_twice:
  assumes "os_Remove w p = (err, w')"
    and "case err of None \<Rightarrow> True | Some e \<Rightarrow> os_IsNotExist e"
  shows "os_Remove w' p = (Some (ErrNotExist (''remove '' @ p @ '': no such file or directory'')), w')"
  using assms by (auto simp: os_Remove_def os_IsNotExist_def split: option.splits os_error.splits)

lemma DeleteFile_idle:
  assumes "mutex r = RWMutex_zero" and "fileID \<noteq> []"
  shows "DeleteFile J w r fileID =
     (case os_Remove w (J (storagePath r) fileID) of
        (err, w') \<Rightarrow>
           if (case err of None \<Rightarrow> False | Some e \<Rightarrow> \<not> os_IsNotExist e)
           then Return (Some ErrFailToDeleteFile, r, w')
           else Return (None, r\<lparr>files := AList.delete fileID (files r)\<rparr>, w'))"
  using assms by (simp add: DeleteFile_def split: prod.splits)

lemma GetFile_not_indexed:
  assumes "mutex r = RWMutex_zero" and "fileID \<noteq> []" and "map_of (files r) fileID = None"
  shows "GetFile J w r fileID = Return (Inl ErrFileNotFound, r)"
  using assms by (simp add: GetFile_def Let_def)

text \<open>
  Claim C5.  On an idle repository: \<^verbatim>\<open>DeleteFile\<close> of the empty id fails with
  \<^verbatim>\<open>ErrInvalidFileID\<close>.  For a non-empty id, when \<^verbatim>\<open>os.Remove\<close> succeeds or reports
  that the object does not exist, \<^verbatim>\<open>DeleteFile\<close> returns no error and the index entry
  of the id is removed; when \<^verbatim>\<open>os.Remove\<close> fails in any other way it fails with
  \<^verbatim>\<open>ErrFailToDeleteFile\<close>.  After a \<^verbatim>\<open>DeleteFile\<close> that returned no error the id is
  not in the index, \<^verbatim>\<open>GetFile\<close> of the id fails with \<^verbatim>\<open>ErrFileNotFound\<close>, and a
  second \<^verbatim>\<open>DeleteFile\<close> of the id returns no error again and changes nothing.
\<close>

theorem DeleteFile_idempotent:
  assumes idle: "mutex r = RWMutex_zero"
  shows "DeleteFile J w r [] = Return (Some ErrInvalidFileID, r, w)
    \<and> (fileID \<noteq> [] \<longrightarrow>
         (case os_Remove w (J (storagePath r) fileID) of
            (None, w') \<Rightarrow>
              DeleteFile J w r fileID = Return (None, r\<lparr>files := AList.delete fileID (files r)\<rparr>, w')
          | (Some e, w') \<Rightarrow>
              if os_IsNotExist e
              then DeleteFile J w r fileID = Return (None, r\<lparr>files := AList.delete fileID (files r)\<rparr>, w')
              else DeleteFile J w r fileID = Return (Some ErrFailToDeleteFile, r, w')))
    \<and> (\<forall>r1 w1. fileID \<noteq> [] \<and> DeleteFile J w r fileID = Return (None, r1, w1) \<longrightarrow>
          map_of (files r1) fileID = None
          \<and> GetFile J w1 r1 fileID = Return (Inl ErrFileNotFound, r1)
          \<and> DeleteFile J w1 r1 fileID = Return (None, r1, w1))"
proof (intro conjI allI impI)
  show "DeleteFile J w r [] = Return (Some ErrInvalidFileID, r, w)"
    by (simp add: DeleteFile_def)
next
  assume ne: "fileID \<noteq> []"
  show "case os_Remove w (J (storagePath r) fileID) of
            (None, w') \<Rightarrow>
              DeleteFile J w r fileID = Return (None, r\<lparr>files := AList.delete fileID (files r)\<rparr>, w')
          | (Some e, w') \<Rightarrow>
              if os_IsNotExist e
              then DeleteFile J w r fileID = Return (None, r\<lparr>files := AList.delete fileID (files r)\<rparr>, w')
              else DeleteFile J w r fileID = Return (Some ErrFailToDeleteFile, r, w')"
    by (simp add: DeleteFile_idle [OF idle ne] split: prod.splits option.splits)
next
  fix r1 w1
  assume a: "fileID \<noteq> [] \<and> DeleteFile J w r fileID = Return (None, r1, w1)"
  then have ne: "fileID \<noteq> []" and d: "DeleteFile J w r fileID = Return (None, r1, w1)"
    by simp_all
  obtain err w' where rm: "os_Remove w (J (storagePath r) fileID) = (err, w')"
    by (cases "os_Remove w (J (storagePath r) fileID)")
  from d rm have ok: "case err of None \<Rightarrow> True | Some e \<Rightarrow> os_IsNotExist e"
    and r1: "r1 = r\<lparr>files := AList.delete fileID (files r)\<rparr>" and w1: "w1 = w'"
    by (auto simp: DeleteFile_idle [OF idle ne] split: if_splits option.splits)
  have idle1: "mutex r1 = RWMutex_zero"
    using idle r1 by simp
  show absent: "map_of (files r1) fileID = None"
    by (simp add: r1 AList.delete_conv')
  show "GetFile J w1 r1 fileID = Return (Inl ErrFileNotFound, r1)"
    by (rule GetFile_not_indexed [OF idle1 ne absent])
  have "os_Remove w1 (J (storagePath r1) fileID)
          = (Some (ErrNotExist (''remove '' @ J (storagePath r1) fileID @ '': no such file or directory'')), w1)"
    using os_Remove_twice [OF rm ok] by (simp add: r1 w1)
  then have "DeleteFile J w1 r1 fileID
               = Return (None, r1\<lparr>files := AList.delete fileID (files r1)\<rparr>, w1)"
    by (simp add: DeleteFile_idle [OF idle1 ne] os_IsNotExist_def)
  moreover have "r1\<lparr>files := AList.delete fileID (files r1)\<rparr> = r1"
    by (simp add: r1 AList.delete_idem)
  ultimately show "DeleteFile J w1 r1 fileID = Return (None, r1, w1)"
    by simp
qed

text \<open>
  The theorem at the store with the object \<open>ab\<close>: the first delete removes the object
  and the entry, the lookup that follows fails with \<^verbatim>\<open>ErrFileNotFound\<close>, the second
  delete succeeds on the emptied store.
\<close>

theorem DeleteFile_idempotent_witness:
  "mutex repo_ab = RWMutex_zero \<and> ''ab'' \<noteq> []
   \<and> DeleteFile slashJoin world_ab repo_ab ''ab''
        = Return (None, repo_ab\<lparr>files := []\<rparr>, world_ab\<lparr>objects := Map.empty\<rparr>)
   \<and> GetFile slashJoin (world_ab\<lparr>objects := Map.empty\<rparr>) (repo_ab\<lparr>files := []\<rparr>) ''ab''
        = Return (Inl ErrFileNotFound, repo_ab\<lparr>files := []\<rparr>)
   \<and> DeleteFile slashJoin (world_ab\<lparr>objects := Map.empty\<rparr>) (repo_ab\<lparr>files := []\<rparr>) ''ab''
        = Return (None, repo_ab\<lparr>files := []\<rparr>, world_ab\<lparr>objects := Map.empty\<rparr>)"
proof -
  have idle: "mutex repo_ab = RWMutex_zero"
    by (simp add: repo_ab_def)
  have rm: "os_Remove world_ab (slashJoin (storagePath repo_ab) ''ab'')
              = (None, world_ab\<lparr>objects := Map.empty\<rparr>)"
    by (simp add: os_Remove_def world_ab_def repo_ab_def slashJoin_def)
  have del: "AList.delete ''ab'' (files repo_ab) = []"
    by (simp add: repo_ab_def)
  note t = DeleteFile_idempotent [OF idle, of slashJoin world_ab "''ab''"]
  from t rm del have first:
    "DeleteFile slashJoin world_ab repo_ab ''ab''
       = Return (None, repo_ab\<lparr>files := []\<rparr>, world_ab\<lparr>objects := Map.empty\<rparr>)"
    by simp
  with t show ?thesis
    using idle by simp
qed

section \<open>GetFile\<close>

lemma GetFile_idle:
  assumes "mutex r = RWMutex_zero" and "fileID \<noteq> []"
  shows "GetFile J w r fileID =
     (case map_of (files r) fileID of
        None \<Rightarrow> Return (Inl ErrFileNotFound, r)
      | Some fileInfo \<Rightarrow>
          (case os_ReadFile w (J (storagePath r) fileID) of
             Inl err \<Rightarrow>
               if os_IsNotExist err
               then Return (Inl ErrFileNotFound, r\<lparr>files := AList.delete fileID (files r)\<rparr>)
               else Return (Inl (Errorf ''FAILED TO READ FILE: '' (OsError err)), r)
           | Inr data \<Rightarrow> Return (Inr \<lparr>Info = fileInfo, Data = data\<rparr>, r)))"
  using assms by (simp add: GetFile_def Let_def split: option.splits sum.splits)

text \<open>
  Claim C3, as the code has it.  On an idle repository, for a non-empty id that is in
  the index, when \<^verbatim>\<open>os.ReadFile\<close> fails: if the error says that the object does not
  exist, \<^verbatim>\<open>GetFile\<close> fails with \<^verbatim>\<open>ErrFileNotFound\<close> and the entry of the id, and no
  other, is deleted from the index; for any other error \<^verbatim>\<open>GetFile\<close> fails with the
  error that wraps the read error under the text \<^verbatim>\<open>FAILED TO READ FILE: \<close>, which
  is not the sentinel \<^verbatim>\<open>ErrStorageUnavailable\<close>, and the index is as it was.
\<close>

theorem GetFile_read_failure:
  assumes idle: "mutex r = RWMutex_zero" and ne: "fileID \<noteq> []"
    and indexed: "map_of (files r) fileID = Some fileInfo"
    and failed: "os_ReadFile w (J (storagePath r) fileID) = Inl err"
  shows "if os_IsNotExist err
         then GetFile J w r fileID = Return (Inl ErrFileNotFound, r\<lparr>files := AList.delete fileID (files r)\<rparr>)
              \<and> map_of (AList.delete fileID (files r)) = (map_of (files r))(fileID := None)
         else GetFile J w r fileID = Return (Inl (Errorf ''FAILED TO READ FILE: '' (OsError err)), r)
              \<and> Errorf ''FAILED TO READ FILE: '' (OsError err) \<noteq> ErrStorageUnavailable"
  using indexed failed by (simp add: GetFile_idle [OF idle ne] AList.delete_conv')

text \<open>
  The theorem at the index that records \<open>ab\<close>: over an empty disk the entry is evicted,
  over a disk that denies the read the wrapped error comes back and the entry stays.
\<close>

theorem GetFile_read_failure_witness:
  "mutex repo_ab = RWMutex_zero \<and> ''ab'' \<noteq> []
   \<and> map_of (files repo_ab) ''ab''
        = Some \<lparr>ID = ''ab'', Filename = ''a.txt'', CreatedAt = 5, UpdatedAt = 5, Size = 1\<rparr>
   \<and> os_ReadFile world_empty (slashJoin (storagePath repo_ab) ''ab'')
        = Inl (ErrNotExist ''open store/ab: no such file or directory'')
   \<and> GetFile slashJoin world_empty repo_ab ''ab'' = Return (Inl ErrFileNotFound, repo_ab\<lparr>files := []\<rparr>)
   \<and> os_ReadFile world_ab_fault (slashJoin (storagePath repo_ab) ''ab'')
        = Inl (ErrOther ''open store/ab: permission denied'')
   \<and> GetFile slashJoin world_ab_fault repo_ab ''ab''
        = Return (Inl (Errorf ''FAILED TO READ FILE: '' (OsError (ErrOther ''open store/ab: permission denied''))),
                  repo_ab)"
proof -
  have idle: "mutex repo_ab = RWMutex_zero" and ne: "''ab'' \<noteq> []"
    and indexed: "map_of (files repo_ab) ''ab''
        = Some \<lparr>ID = ''ab'', Filename = ''a.txt'', CreatedAt = 5, UpdatedAt = 5, Size = 1\<rparr>"
    by (simp_all add: repo_ab_def)
  have absent: "os_ReadFile world_empty (slashJoin (storagePath repo_ab) ''ab'')
        = Inl (ErrNotExist ''open store/ab: no such file or directory'')"
    by (simp add: os_ReadFile_def world_empty_def repo_ab_def slashJoin_def)
  have denied: "os_ReadFile world_ab_fault (slashJoin (storagePath repo_ab) ''ab'')
        = Inl (ErrOther ''open store/ab: permission denied'')"
    by (simp add: os_ReadFile_def world_ab_fault_def world_ab_def repo_ab_def slashJoin_def)
  have del: "AList.delete ''ab'' (files repo_ab) = []"
    by (simp add: repo_ab_def)
  from GetFile_read_failure [where J = slashJoin, OF idle ne indexed absent] del
  have 1: "GetFile slashJoin world_empty repo_ab ''ab'' = Return (Inl ErrFileNotFound, repo_ab\<lparr>files := []\<rparr>)"
    by (simp add: os_IsNotExist_def)
  from GetFile_read_failure [where J = slashJoin, OF idle ne indexed denied]
  have 2: "GetFile slashJoin world_ab_fault repo_ab ''ab''
        = Return (Inl (Errorf ''FAILED TO READ FILE: '' (OsError (ErrOther ''open store/ab: permission denied''))),
                  repo_ab)"
    by (simp add: os_IsNotExist_def)
  from idle ne indexed absent denied 1 2 show ?thesis
    by simp
qed

text \<open>
  Claim C3 as the specification words it fails: the id \<open>ab\<close> is in the index, the read
  of its object is denied (a failure other than "does not exist"), and \<^verbatim>\<open>GetFile\<close>
  does not fail with \<^verbatim>\<open>ErrStorageUnavailable\<close>.
\<close>

theorem GetFile_not_StorageUnavailable:
  "map_of (files repo_ab) ''ab'' \<noteq> None
   \<and> os_ReadFile world_ab_fault (slashJoin (storagePath repo_ab) ''ab'')
        = Inl (ErrOther ''open store/ab: permission denied'')
   \<and> GetFile slashJoin world_ab_fault repo_ab ''ab''
        = Return (Inl (Errorf ''FAILED TO READ FILE: '' (OsError (ErrOther ''open store/ab: permission denied''))),
                  repo_ab)
   \<and> GetFile slashJoin world_ab_fault repo_ab ''ab'' \<noteq> Return (Inl ErrStorageUnavailable, repo_ab)"
  by (simp add: GetFile_def Let_def os_ReadFile_def world_ab_fault_def world_ab_def repo_ab_def
      slashJoin_def os_IsNotExist_def)

section \<open>The content id\<close>

lemma length_md5_Sum: "length (md5_Sum m) = 16"
  by (simp add: md5_Sum_def bytes_of32_def Let_def split: prod.splits)

lemma length_hex_EncodeToString: "length (hex_EncodeToString src) = 2 * length src"
  by (induction src) (simp_all add: hex_EncodeToString_def)

lemma nibble_hi: "unat (drop_bit 4 (v :: byte)) < 16"
proof -
  have "unat (drop_bit 4 v) = drop_bit 4 (unat v)"
    by (simp add: unat_drop_bit_eq)
  moreover have "unat v < 256"
    using unsigned_less [of v, where ?'a = nat] by simp
  ultimately show ?thesis
    by (simp add: drop_bit_eq_div)
qed

lemma nibble_lo: "unat ((v :: byte) AND 0x0f) < 16"
proof -
  have "(v AND 0x0f) = take_bit 4 v"
    by (simp add: take_bit_eq_mask mask_eq_exp_minus_1)
  then have "unat (v AND 0x0f) = take_bit 4 (unat v)"
    by (simp add: unsigned_take_bit_eq)
  then show ?thesis
    by (simp add: take_bit_eq_mod)
qed

lemma hextable_digit: "k < 16 \<Longrightarrow> hextable ! k \<in> set ''0123456789abcdef''"
  unfolding hextable_def using nth_mem [of k "''0123456789abcdef''"] by simp

lemma set_hex_EncodeToString: "set (hex_EncodeToString src) \<subseteq> set ''0123456789abcdef''"
  unfolding hex_EncodeToString_def
  using hextable_digit [OF nibble_hi] hextable_digit [OF nibble_lo] by auto

lemma length_content_id: "length (hex_EncodeToString (md5_Sum data)) = 32"
  by (simp add: length_hex_EncodeToString length_md5_Sum)

lemma content_id_not_empty: "hex_EncodeToString (md5_Sum data) \<noteq> []"
  using length_content_id [of data] by auto

section \<open>strings.TrimSpace and white space\<close>

lemma trimLeft_empty_iff: "trimLeft s = [] \<longleftrightarrow> whitespace_only s"
proof (induction s rule: trimLeft.induct)
  case (1 s)
  show ?case
  proof (cases "spaceWidth s = 0")
    case True
    then show ?thesis
      by (subst trimLeft.simps, subst whitespace_only.simps) simp
  next
    case False
    with 1 have "trimLeft (drop (spaceWidth s) s) = [] \<longleftrightarrow> whitespace_only (drop (spaceWidth s) s)"
      by simp
    moreover from False have "s \<noteq> []" by auto
    ultimately show ?thesis
      using False by (subst trimLeft.simps, subst whitespace_only.simps) simp
  qed
qed

lemma spaceWidth_trimLeft: "spaceWidth (trimLeft s) = 0"
proof (induction s rule: trimLeft.induct)
  case (1 s)
  then show ?case
    by (cases "spaceWidth s = 0") (subst trimLeft.simps, simp)+
qed

text \<open>A string that is one white-space rune read from its end is one read from its start.\<close>

lemma spaceWidthRev_whole:
  assumes "spaceWidthRev (rev t) = length t" and "t \<noteq> []"
  shows "spaceWidth t = length t"
proof -
  have "length t \<le> 3"
    using assms(1) by (cases "rev t" rule: spaceWidthRev.cases) (auto split: if_splits)
  then consider a where "t = [a]" | a b where "t = [a, b]" | a b c where "t = [a, b, c]"
    using assms(2)
    by (cases t; cases "tl t"; cases "tl (tl t)"; cases "tl (tl (tl t))") auto
  then show ?thesis
  proof cases
    case 1
    with assms show ?thesis by (auto split: if_splits)
  next
    case 2
    with assms show ?thesis by (auto simp: space2_def asciiSpace_def split: if_splits)
  next
    case 3
    with assms show ?thesis by (auto simp: space2_def space3_def asciiSpace_def split: if_splits)
  qed
qed

lemma spaceWidth_append: "0 < spaceWidth t \<Longrightarrow> spaceWidth (t @ x) = spaceWidth t"
  by (cases t rule: spaceWidth.cases; cases x rule: spaceWidth.cases) (auto split: if_splits)

lemma trimLeftRev_empty:
  "trimLeftRev u = [] \<Longrightarrow> u \<noteq> [] \<Longrightarrow> 0 < spaceWidth (rev u)"
proof (induction u rule: trimLeftRev.induct)
  case (1 u)
  let ?k = "spaceWidthRev u"
  from "1.prems" have k: "?k \<noteq> 0"
    by (subst (asm) trimLeftRev.simps) (auto split: if_splits)
  with "1.prems" have rest: "trimLeftRev (drop ?k u) = []"
    by (subst (asm) trimLeftRev.simps) simp
  have le: "?k \<le> length u" by (rule spaceWidthRev_le)
  show ?case
  proof (cases "drop ?k u = []")
    case True
    with le have "?k = length u" by simp
    then have "spaceWidthRev (rev (rev u)) = length (rev u)" by simp
    moreover from "1.prems" have "rev u \<noteq> []" by simp
    ultimately have "spaceWidth (rev u) = length (rev u)" by (rule spaceWidthRev_whole)
    with "1.prems" show ?thesis by simp
  next
    case False
    with "1.IH" k rest have "0 < spaceWidth (rev (drop ?k u))" by simp
    moreover have "rev u = rev (drop ?k u) @ rev (take ?k u)"
      by (metis append_take_drop_id rev_append)
    ultimately show ?thesis
      by (metis spaceWidth_append)
  qed
qed

lemma TrimSpace_empty_iff: "strings_TrimSpace s = [] \<longleftrightarrow> whitespace_only s"
proof
  assume e: "strings_TrimSpace s = []"
  then have "trimLeftRev (rev (trimLeft s)) = []"
    by (simp add: strings_TrimSpace_def trimRight_def)
  then have "trimLeft s = []"
    using trimLeftRev_empty [of "rev (trimLeft s)"] spaceWidth_trimLeft [of s] by auto
  then show "whitespace_only s" by (simp add: trimLeft_empty_iff)
next
  assume "whitespace_only s"
  then have "trimLeft s = []" by (simp add: trimLeft_empty_iff)
  then show "strings_TrimSpace s = []"
    by (simp add: strings_TrimSpace_def trimRight_def trimLeftRev.simps)
qed

lemma whitespace_only_ascii: "\<forall>c \<in> set s. asciiSpace c \<Longrightarrow> whitespace_only s"
proof (induction s)
  case Nil
  then show ?case by (subst whitespace_only.simps) simp
next
  case (Cons c s)
  then have "spaceWidth (c # s) = 1"
    by (cases "c # s" rule: spaceWidth.cases) auto
  with Cons show ?case by (subst whitespace_only.simps) simp
qed

section \<open>SaveFile\<close>

text \<open>
  On an idle repository the commented copy takes and releases the lock in matching pairs;
  what is left is the validation, the lookup of the content id, the write and the new
  record.  The copy without comments releases a read lock that it does not hold as soon
  as the validation has passed.
\<close>

lemma SaveFile_idle:
  assumes "mutex r = RWMutex_zero"
  shows "SaveFile J now w r filename data =
     (case validateFile filename data of
        Some err \<Rightarrow> Return (Inl err, r, w)
      | None \<Rightarrow>
          (let fileID = hex_EncodeToString (md5_Sum data) in
           if map_of (files r) fileID \<noteq> None then Return (Inr fileID, r, w)
           else (case os_WriteFile w (J (storagePath r) fileID) data of
                   (Some err, w') \<Rightarrow> Return (Inl (Errorf ''FAILED TO WRITE FILE: '' (OsError err)), r, w')
                 | (None, w') \<Rightarrow>
                     Return (Inr fileID,
                             r\<lparr>files := AList.update fileID
                                   \<lparr>ID = fileID, Filename = filename, CreatedAt = now, UpdatedAt = now,
                                    Size = of_nat (length data)\<rparr> (files r)\<rparr>,
                             w'))))"
  using assms by (simp add: SaveFile_def Let_def split: option.splits prod.splits)

lemma SaveFile_2_idle:
  assumes "mutex r = RWMutex_zero"
  shows "SaveFile_2 J now w r filename data =
     (case validateFile filename data of
        Some err \<Rightarrow> Return (Inl err, r, w)
      | None \<Rightarrow> Fatal ''sync: RUnlock of unlocked RWMutex'')"
  using assms
  by (simp add: SaveFile_2_def Let_def Lock_def RUnlock_def RWMutex_zero_def split: option.splits)

lemma validateFile_cases:
  "validateFile filename data =
     (if whitespace_only filename then Some ErrInvalidFilename
      else if 10 * 1024 * 1024 < length data then Some ErrFileTooLarge
      else if length data = 0 then Some ErrFileIsEmpty
      else None)"
  by (simp add: validateFile_def TrimSpace_empty_iff maxFileSize_def)

lemma SaveFile_invalid: "validateFile filename data = Some err \<Longrightarrow> SaveFile J now w r filename data = Return (Inl err, r, w)"
  by (simp add: SaveFile_def)

lemma SaveFile_2_invalid: "validateFile filename data = Some err \<Longrightarrow> SaveFile_2 J now w r filename data = Return (Inl err, r, w)"
  by (simp add: SaveFile_2_def)

lemma SaveFile_valid_error:
  assumes "validateFile filename data = None"
    and "returned (SaveFile J now w r filename data) = Some (Inl e)"
  shows "\<exists>e'. e = Errorf ''FAILED TO WRITE FILE: '' (OsError e')"
  using assms
  by (auto simp: SaveFile_def returned_def Let_def RLock_def RUnlock_def Lock_def Unlock_def
      split: if_splits prod.splits option.splits)

lemma SaveFile_2_valid_error:
  assumes "validateFile filename data = None"
    and "returned (SaveFile_2 J now w r filename data) = Some (Inl e)"
  shows "\<exists>e'. e = Errorf ''FAILED TO WRITE FILE: '' (OsError e')"
  using assms
  by (auto simp: SaveFile_2_def returned_def Let_def RLock_def RUnlock_def Lock_def Unlock_def
      split: if_splits prod.splits option.splits)

lemma SaveFile_fails_iff:
  assumes "e \<in> {ErrInvalidFilename, ErrFileTooLarge, ErrFileIsEmpty}"
  shows "returned (SaveFile J now w r filename data) = Some (Inl e) \<longleftrightarrow> validateFile filename data = Some e"
proof (cases "validateFile filename data")
  case None
  with assms SaveFile_valid_error [OF None, of J now w r e] show ?thesis by auto
next
  case (Some err)
  then show ?thesis by (auto simp: SaveFile_invalid returned_def)
qed

lemma SaveFile_2_fails_iff:
  assumes "e \<in> {ErrInvalidFilename, ErrFileTooLarge, ErrFileIsEmpty}"
  shows "returned (SaveFile_2 J now w r filename data) = Some (Inl e) \<longleftrightarrow> validateFile filename data = Some e"
proof (cases "validateFile filename data")
  case None
  with assms SaveFile_2_valid_error [OF None, of J now w r e] show ?thesis by auto
next
  case (Some err)
  then show ?thesis by (auto simp: SaveFile_2_invalid returned_def)
qed

lemma SaveFile_checks_commented:
  "(returned (SaveFile J now w r filename data) = Some (Inl ErrInvalidFilename)
            \<longleftrightarrow> whitespace_only filename)
    \<and> (returned (SaveFile J now w r filename data) = Some (Inl ErrFileTooLarge)
            \<longleftrightarrow> \<not> whitespace_only filename \<and> 10 * 1024 * 1024 < length data)
    \<and> (returned (SaveFile J now w r filename data) = Some (Inl ErrFileIsEmpty)
            \<longleftrightarrow> \<not> whitespace_only filename \<and> length data = 0)"
  by (simp add: SaveFile_fails_iff validateFile_cases)

lemma SaveFile_checks_uncommented:
  "(returned (SaveFile_2 J now w r filename data) = Some (Inl ErrInvalidFilename)
            \<longleftrightarrow> whitespace_only filename)
    \<and> (returned (SaveFile_2 J now w r filename data) = Some (Inl ErrFileTooLarge)
            \<longleftrightarrow> \<not> whitespace_only filename \<and> 10 * 1024 * 1024 < length data)
    \<and> (returned (SaveFile_2 J now w r filename data) = Some (Inl ErrFileIsEmpty)
            \<longleftrightarrow> \<not> whitespace_only filename \<and> length data = 0)"
  by (simp add: SaveFile_2_fails_iff validateFile_cases)

text \<open>
  Claim C6, for both copies of \<^verbatim>\<open>SaveFile\<close> and whatever the state of the lock.
  The checks run in the order of \<^verbatim>\<open>validateFile\<close>: \<^verbatim>\<open>SaveFile\<close> fails with
  \<^verbatim>\<open>ErrInvalidFilename\<close> exactly when the filename is empty or white space only;
  it fails with \<^verbatim>\<open>ErrFileTooLarge\<close> exactly when the filename passes and the data
  is longer than 10 MiB, and with \<^verbatim>\<open>ErrFileIsEmpty\<close> exactly when the filename
  passes and the data is empty.  A blank filename with empty data gives
  \<^verbatim>\<open>ErrInvalidFilename\<close>; data of exactly 10 MiB passes the validation, one byte
  more fails it.  Whenever the validation fails, the call returns that error with the
  repository and the disk as they were.
\<close>

theorem SaveFile_validation:
  assumes "save = SaveFile \<or> save = SaveFile_2"
  shows "(returned (save J now w r filename data) = Some (Inl ErrInvalidFilename)
            \<longleftrightarrow> whitespace_only filename)
    \<and> (returned (save J now w r filename data) = Some (Inl ErrFileTooLarge)
            \<longleftrightarrow> \<not> whitespace_only filename \<and> 10 * 1024 * 1024 < length data)
    \<and> (returned (save J now w r filename data) = Some (Inl ErrFileIsEmpty)
            \<longleftrightarrow> \<not> whitespace_only filename \<and> length data = 0)
    \<and> (\<forall>err. validateFile filename data = Some err \<longrightarrow>
            save J now w r filename data = Return (Inl err, r, w))
    \<and> (whitespace_only filename \<and> length data = 0 \<longrightarrow>
            save J now w r filename data = Return (Inl ErrInvalidFilename, r, w))
    \<and> (\<not> whitespace_only filename \<and> length data = 10 * 1024 * 1024 \<longrightarrow>
            validateFile filename data = None)
    \<and> (\<not> whitespace_only filename \<and> length data = 10 * 1024 * 1024 + 1 \<longrightarrow>
            save J now w r filename data = Return (Inl ErrFileTooLarge, r, w))"
proof -
  have inv: "\<forall>err. validateFile filename data = Some err \<longrightarrow>
            save J now w r filename data = Return (Inl err, r, w)"
    using assms by (auto simp: SaveFile_invalid SaveFile_2_invalid)
  have v1: "whitespace_only filename \<and> length data = 0 \<longrightarrow> validateFile filename data = Some ErrInvalidFilename"
    and v2: "\<not> whitespace_only filename \<and> length data = 10 * 1024 * 1024 \<longrightarrow>
            validateFile filename data = None"
    and v3: "\<not> whitespace_only filename \<and> length data = 10 * 1024 * 1024 + 1 \<longrightarrow>
            validateFile filename data = Some ErrFileTooLarge"
    by (simp_all add: validateFile_cases)
  from assms show ?thesis
  proof
    assume "save = SaveFile"
    with SaveFile_checks_commented [of J now w r filename data] inv v1 v2 v3 show ?thesis
      by blast
  next
    assume "save = SaveFile_2"
    with SaveFile_checks_uncommented [of J now w r filename data] inv v1 v2 v3 show ?thesis
      by blast
  qed
qed

text \<open>
  The theorem at the blank filename \<open>" "\<close> with no data, and at \<open>a.txt\<close> with no
  data, with 10 MiB of zeros and with one byte more.
\<close>

lemma ws_blank: "whitespace_only '' ''" by code_simp
lemma ws_a: "\<not> whitespace_only ''a.txt''" by code_simp

theorem SaveFile_validation_witness:
  "(SaveFile = SaveFile \<or> SaveFile = SaveFile_2)
   \<and> whitespace_only '' ''
   \<and> SaveFile slashJoin 7 world_empty repo_empty '' '' [] = Return (Inl ErrInvalidFilename, repo_empty, world_empty)
   \<and> \<not> whitespace_only ''a.txt'' \<and> length (replicate (10 * 1024 * 1024 + 1) (0 :: byte)) = 10 * 1024 * 1024 + 1
   \<and> SaveFile slashJoin 7 world_empty repo_empty ''a.txt'' (replicate (10 * 1024 * 1024 + 1) 0)
        = Return (Inl ErrFileTooLarge, repo_empty, world_empty)
   \<and> validateFile ''a.txt'' (replicate (10 * 1024 * 1024) 0) = None
   \<and> returned (SaveFile slashJoin 7 world_empty repo_empty ''a.txt'' []) = Some (Inl ErrFileIsEmpty)"
  using SaveFile_validation [of SaveFile slashJoin 7 world_empty repo_empty "'' ''" "[]"]
    SaveFile_validation [of SaveFile slashJoin 7 world_empty repo_empty "''a.txt''" "replicate (10 * 1024 * 1024 + 1) 0"]
    SaveFile_validation [of SaveFile slashJoin 7 world_empty repo_empty "''a.txt''" "replicate (10 * 1024 * 1024) 0"]
    SaveFile_validation [of SaveFile slashJoin 7 world_empty repo_empty "''a.txt''" "[]"]
    ws_blank ws_a
  by simp

section \<open>Saving and reading back\<close>

lemma ws_b: "\<not> whitespace_only ''b.txt''"
  by code_simp

lemma validate_a: "validateFile ''a.txt'' [0x61] = None"
  by (simp add: validateFile_cases ws_a)

lemma validate_b: "validateFile ''b.txt'' [0x61] = None"
  by (simp add: validateFile_cases ws_b)

lemma md5_a: "hex_EncodeToString (md5_Sum [0x61]) = id_a"
  unfolding id_a_def by code_simp

lemma os_ReadFile_after_write:
  "os_WriteFile w p data = (None, w') \<Longrightarrow> os_ReadFile w' p = Inr data"
  by (auto simp: os_WriteFile_def os_ReadFile_def split: option.splits)

lemma id_a_not_empty: "id_a \<noteq> []"
  by (simp add: id_a_def)

lemma idle_examples [simp]:
  "mutex repo_empty = RWMutex_zero" "mutex repo_a = RWMutex_zero" "mutex repo_ab = RWMutex_zero"
  by (simp_all add: repo_empty_def repo_a_def repo_ab_def)

lemma SaveFile_a: "SaveFile slashJoin 7 world_empty repo_empty ''a.txt'' [0x61] = Return (Inr id_a, repo_a, world_a)"
  by (simp add: SaveFile_idle validate_a md5_a repo_empty_def repo_a_def
      world_empty_def world_a_def os_WriteFile_def slashJoin_def)

lemma SaveFile_b: "SaveFile slashJoin 8 world_a repo_a ''b.txt'' [0x61] = Return (Inr id_a, repo_a, world_a)"
  by (simp add: SaveFile_idle validate_b md5_a repo_a_def)

lemma GetFile_a:
  "GetFile slashJoin world_a repo_a id_a
     = Return (Inr \<lparr>Info = \<lparr>ID = id_a, Filename = ''a.txt'', CreatedAt = 7, UpdatedAt = 7, Size = 1\<rparr>,
                    Data = [0x61]\<rparr>, repo_a)"
proof -
  have "mutex repo_a = RWMutex_zero"
    by (simp add: repo_a_def)
  from GetFile_idle [OF this id_a_not_empty, of slashJoin world_a] show ?thesis
    by (simp add: repo_a_def world_a_def os_ReadFile_def slashJoin_def)
qed

text \<open>
  The commented copy of \<^verbatim>\<open>SaveFile\<close> (lines 103-143) on an idle repository: a call
  that returns an id returns the 32 lower-case hexadecimal digits of the MD5 digest of
  the data, and a second call with the same data, under any filename that passes the
  validation, returns the same id and leaves the repository and the disk as the first
  call left them.
\<close>

lemma SaveFile_dedup:
  assumes idle: "mutex r = RWMutex_zero"
    and first: "SaveFile J now w r f1 data = Return (Inr fileID, r1, w1)"
    and f2: "\<not> whitespace_only f2"
  shows "fileID = hex_EncodeToString (md5_Sum data) \<and> length fileID = 32
    \<and> set fileID \<subseteq> set ''0123456789abcdef''
    \<and> map_of (files r1) fileID \<noteq> None
    \<and> SaveFile J now2 w1 r1 f2 data = Return (Inr fileID, r1, w1)"
proof -
  from first have v1: "validateFile f1 data = None"
    by (cases "validateFile f1 data") (simp_all add: SaveFile_invalid)
  then have v2: "validateFile f2 data = None"
    using f2 by (simp add: validateFile_cases split: if_splits)
  let ?id = "hex_EncodeToString (md5_Sum data)"
  from first v1 idle have id: "fileID = ?id"
    and idle1: "mutex r1 = RWMutex_zero"
    and known: "map_of (files r1) ?id \<noteq> None"
    by (auto simp: SaveFile_idle Let_def AList.update_conv' split: if_splits prod.splits option.splits)
  from idle1 v2 known have "SaveFile J now2 w1 r1 f2 data = Return (Inr ?id, r1, w1)"
    by (simp add: SaveFile_idle Let_def)
  with id known set_hex_EncodeToString [of "md5_Sum data"] show ?thesis
    by (simp add: length_content_id)
qed

text \<open>
  Claim C4 on the copy of \<^verbatim>\<open>SaveFile\<close> without comments (lines 352-391): the file
  \<open>a.txt\<close> with the one byte \<open>a\<close> passes the validation, and the call on the empty,
  idle store does not return an id: the write lock taken at line 363 is released as a
  read lock at line 368 (line 365 when the id is already stored), which the Go runtime
  answers with a fatal error.  The commented copy returns the id on the same inputs.
\<close>

theorem SaveFile_2_fatal:
  "validateFile ''a.txt'' [0x61] = None
   \<and> SaveFile_2 slashJoin 7 world_empty repo_empty ''a.txt'' [0x61]
       = Fatal ''sync: RUnlock of unlocked RWMutex''
   \<and> SaveFile slashJoin 7 world_empty repo_empty ''a.txt'' [0x61] = Return (Inr id_a, repo_a, world_a)
   \<and> SaveFile_2 slashJoin 8 world_a repo_a ''b.txt'' [0x61]
       = Fatal ''sync: RUnlock of unlocked RWMutex''
   \<and> SaveFile slashJoin 8 world_a repo_a ''b.txt'' [0x61] = Return (Inr id_a, repo_a, world_a)"
  by (simp add: SaveFile_2_idle SaveFile_a SaveFile_b validate_a validate_b)

text \<open>
  Claim C7, as the code has it (commented copy of \<^verbatim>\<open>SaveFile\<close>, idle repository).
  For a filename that is not blank and data of 1 byte to 10 MiB, with \<open>fileID\<close> the
  content id of the data: when the id is not in the index and the write succeeds,
  \<^verbatim>\<open>SaveFile\<close> returns the id and the \<^verbatim>\<open>GetFile\<close> that follows returns exactly
  the data, with a record that carries the id, the supplied filename, the time of the
  save and the length of the data.  When the id is already in the index,
  \<^verbatim>\<open>SaveFile\<close> returns it and changes nothing, and \<^verbatim>\<open>GetFile\<close> returns the
  record that was there, with its filename, and the bytes the disk holds under the id.
\<close>

theorem SaveFile_GetFile_roundtrip:
  assumes idle: "mutex r = RWMutex_zero"
    and name: "\<not> whitespace_only filename"
    and size: "1 \<le> length data \<and> length data \<le> 10 * 1024 * 1024"
    and id: "fileID = hex_EncodeToString (md5_Sum data)"
    and info: "fileInfo = \<lparr>ID = fileID, Filename = filename, CreatedAt = now, UpdatedAt = now,
                            Size = of_nat (length data)\<rparr>"
  shows "case map_of (files r) fileID of
           None \<Rightarrow>
             (\<forall>w1. os_WriteFile w (J (storagePath r) fileID) data = (None, w1) \<longrightarrow>
                SaveFile J now w r filename data
                  = Return (Inr fileID, r\<lparr>files := AList.update fileID fileInfo (files r)\<rparr>, w1)
                \<and> GetFile J w1 (r\<lparr>files := AList.update fileID fileInfo (files r)\<rparr>) fileID
                  = Return (Inr \<lparr>Info = fileInfo, Data = data\<rparr>,
                            r\<lparr>files := AList.update fileID fileInfo (files r)\<rparr>))
         | Some old \<Rightarrow>
             SaveFile J now w r filename data = Return (Inr fileID, r, w)
             \<and> (\<forall>stored. os_ReadFile w (J (storagePath r) fileID) = Inr stored \<longrightarrow>
                   GetFile J w r fileID = Return (Inr \<lparr>Info = old, Data = stored\<rparr>, r))"
proof -
  from name size have valid: "validateFile filename data = None"
    by (auto simp: validateFile_cases)
  have ne: "fileID \<noteq> []"
    by (simp add: id content_id_not_empty)
  show ?thesis
  proof (cases "map_of (files r) fileID")
    case None
    let ?r1 = "r\<lparr>files := AList.update fileID fileInfo (files r)\<rparr>"
    have idle1: "mutex ?r1 = RWMutex_zero"
      using idle by simp
    {
      fix w1
      assume wr: "os_WriteFile w (J (storagePath r) fileID) data = (None, w1)"
      from None valid wr have "SaveFile J now w r filename data = Return (Inr fileID, ?r1, w1)"
        unfolding id info by (simp add: SaveFile_idle [OF idle] Let_def)
      moreover from os_ReadFile_after_write [OF wr]
      have "os_ReadFile w1 (J (storagePath ?r1) fileID) = Inr data"
        by simp
      then have "GetFile J w1 ?r1 fileID = Return (Inr \<lparr>Info = fileInfo, Data = data\<rparr>, ?r1)"
        by (simp add: GetFile_idle [OF idle1 ne] AList.update_conv')
      ultimately have "SaveFile J now w r filename data = Return (Inr fileID, ?r1, w1)
          \<and> GetFile J w1 ?r1 fileID = Return (Inr \<lparr>Info = fileInfo, Data = data\<rparr>, ?r1)"
        by simp
    }
    with None show ?thesis
      by simp
  next
    case (Some old)
    with valid have "SaveFile J now w r filename data = Return (Inr fileID, r, w)"
      unfolding id by (simp add: SaveFile_idle [OF idle] Let_def)
    with Some show ?thesis
      by (simp add: GetFile_idle [OF idle ne])
  qed
qed

text \<open>The theorem at the empty store and \<open>a.txt\<close> with the one byte \<open>a\<close>.\<close>

theorem SaveFile_GetFile_roundtrip_witness:
  "mutex repo_empty = RWMutex_zero \<and> \<not> whitespace_only ''a.txt''
   \<and> (1 \<le> length [0x61 :: byte] \<and> length [0x61 :: byte] \<le> 10 * 1024 * 1024)
   \<and> id_a = hex_EncodeToString (md5_Sum [0x61])
   \<and> map_of (files repo_empty) id_a = None
   \<and> os_WriteFile world_empty (slashJoin (storagePath repo_empty) id_a) [0x61] = (None, world_a)
   \<and> SaveFile slashJoin 7 world_empty repo_empty ''a.txt'' [0x61] = Return (Inr id_a, repo_a, world_a)
   \<and> GetFile slashJoin world_a repo_a id_a
        = Return (Inr \<lparr>Info = \<lparr>ID = id_a, Filename = ''a.txt'', CreatedAt = 7, UpdatedAt = 7, Size = 1\<rparr>,
                       Data = [0x61]\<rparr>, repo_a)"
proof -
  have idle: "mutex repo_empty = RWMutex_zero" and fresh: "map_of (files repo_empty) id_a = None"
    by (simp_all add: repo_empty_def)
  have size: "1 \<le> length [0x61 :: byte] \<and> length [0x61 :: byte] \<le> 10 * 1024 * 1024"
    by simp
  have wr: "os_WriteFile world_empty (slashJoin (storagePath repo_empty) id_a) [0x61] = (None, world_a)"
    by (simp add: os_WriteFile_def world_empty_def world_a_def repo_empty_def slashJoin_def)
  have r1: "repo_empty\<lparr>files := AList.update id_a
               \<lparr>ID = id_a, Filename = ''a.txt'', CreatedAt = 7, UpdatedAt = 7, Size = of_nat (length [0x61 :: byte])\<rparr>
               (files repo_empty)\<rparr> = repo_a"
    by (simp add: repo_empty_def repo_a_def)
  note t = SaveFile_GetFile_roundtrip [where J = slashJoin and now = 7 and w = world_empty,
      OF idle ws_a size md5_a [symmetric] refl]
  from t fresh wr r1 idle ws_a size md5_a show ?thesis
    by (simp add: SaveFile_a GetFile_a)
qed

text \<open>
  Claim C7 as the specification words it fails where the content is already stored:
  after \<open>a.txt\<close> was saved, saving the same byte as \<open>b.txt\<close> returns the same id,
  and \<^verbatim>\<open>GetFile\<close> of that id returns the filename \<open>a.txt\<close>, not the supplied
  \<open>b.txt\<close>.
\<close>

theorem roundtrip_keeps_first_filename:
  "SaveFile slashJoin 7 world_empty repo_empty ''a.txt'' [0x61] = Return (Inr id_a, repo_a, world_a)
   \<and> \<not> whitespace_only ''b.txt'' \<and> length [0x61 :: byte] = 1
   \<and> SaveFile slashJoin 8 world_a repo_a ''b.txt'' [0x61] = Return (Inr id_a, repo_a, world_a)
   \<and> GetFile slashJoin world_a repo_a id_a
        = Return (Inr \<lparr>Info = \<lparr>ID = id_a, Filename = ''a.txt'', CreatedAt = 7, UpdatedAt = 7, Size = 1\<rparr>,
                       Data = [0x61]\<rparr>, repo_a)
   \<and> Filename \<lparr>ID = id_a, Filename = ''a.txt'', CreatedAt = 7, UpdatedAt = 7, Size = 1\<rparr> \<noteq> ''b.txt''"
  by (simp add: SaveFile_a SaveFile_b GetFile_a ws_b)

section \<open>Restart: NewRepo and ListFiles\<close>

lemma update_fresh: "k \<notin> fst ` set al \<Longrightarrow> AList.update k v al = al @ [(k, v)]"
  by (induction al) auto

lemma indexed_entry_key: "indexed_entry entry = Some (k, v) \<Longrightarrow> k = entry_Name entry"
  by (auto simp: indexed_entry_def split: if_splits sum.splits)

lemma loadEntries_distinct:
  assumes "distinct (map entry_Name entries)"
    and "fst ` set fs \<inter> entry_Name ` set entries = {}"
  shows "loadEntries entries fs = fs @ List.map_filter indexed_entry entries"
  using assms
proof (induction entries arbitrary: fs)
  case Nil
  then show ?case by (simp add: List.map_filter_simps)
next
  case (Cons entry entries)
  show ?case
  proof (cases "indexed_entry entry")
    case None
    then have "loadEntries (entry # entries) fs = loadEntries entries fs"
      by (auto simp: indexed_entry_def split: if_splits sum.splits)
    with None Cons show ?thesis
      by (simp add: List.map_filter_simps disjoint_iff)
  next
    case (Some kv)
    obtain k v where kv: "kv = (k, v)" by (cases kv)
    with Some have k: "k = entry_Name entry" by (simp add: indexed_entry_key)
    from Cons.prems k have fresh: "k \<notin> fst ` set fs" by auto
    from Some kv k have "loadEntries (entry # entries) fs = loadEntries entries (AList.update k v fs)"
      by (auto simp: indexed_entry_def split: if_splits sum.splits)
    also have "\<dots> = loadEntries entries (fs @ [(k, v)])"
      by (simp add: update_fresh [OF fresh])
    also have "\<dots> = (fs @ [(k, v)]) @ List.map_filter indexed_entry entries"
      using Cons.prems k by (intro Cons.IH) (auto simp: disjoint_iff)
    finally show ?thesis
      using Some kv by (simp add: List.map_filter_simps)
  qed
qed

lemma ListFiles_idle:
  assumes "mutex r = RWMutex_zero"
  shows "ListFiles r = Return (Inr (map snd (files r)), r)"
proof -
  have "foldl (\<lambda>acc (k, fileInfo). acc @ [fileInfo]) acc fs = acc @ map snd fs" for acc :: "FileInfo list" and fs :: "(string \<times> FileInfo) list"
    by (induction fs arbitrary: acc) (auto split: prod.splits)
  from this [of "[]"] assms show ?thesis
    by (simp add: ListFiles_def Let_def)
qed

text \<open>
  Claim C8, as the code has it.  Over a storage directory that can be listed, whose
  entries have distinct names, \<^verbatim>\<open>NewRepo\<close> succeeds, leaves the disk as it is, and
  builds an idle repository whose index holds, in the order of the listing, exactly one
  record for every entry that is not a directory and whose \<^verbatim>\<open>Info()\<close> succeeds, and
  none for any other entry: the record's \<^verbatim>\<open>ID\<close> and \<^verbatim>\<open>Filename\<close> are the entry's
  name, \<^verbatim>\<open>CreatedAt\<close> and \<^verbatim>\<open>UpdatedAt\<close> its modification time, \<^verbatim>\<open>Size\<close> its
  size.  \<^verbatim>\<open>ListFiles\<close> then returns these records, whose ids are the names of the
  indexed entries.
\<close>

theorem NewRepo_rebuilds_index:
  assumes nofault: "faults w path = None"
    and listing: "dirs w path = Some entries"
    and names: "distinct (map entry_Name entries)"
    and r: "r = \<lparr>storagePath = path, mutex = RWMutex_zero, files = List.map_filter indexed_entry entries\<rparr>"
  shows "NewRepo w path = (Inr r, w)
    \<and> map fst (files r) = map entry_Name (filter (\<lambda>entry. indexed_entry entry \<noteq> None) entries)
    \<and> (\<forall>entry \<in> set entries. case indexed_entry entry of
          None \<Rightarrow> map_of (files r) (entry_Name entry) = None
        | Some (k, fileInfo) \<Rightarrow> map_of (files r) (entry_Name entry) = Some fileInfo)
    \<and> ListFiles r = Return (Inr (map snd (List.map_filter indexed_entry entries)), r)
    \<and> map ID (map snd (List.map_filter indexed_entry entries))
         = map entry_Name (filter (\<lambda>entry. indexed_entry entry \<noteq> None) entries)"
proof -
  have load: "loadEntries entries [] = List.map_filter indexed_entry entries"
    using loadEntries_distinct [OF names, of "[]"] by simp
  have new: "NewRepo w path = (Inr r, w)"
    using nofault listing by (simp add: NewRepo_def os_MkdirAll_def loadExistingFiles_def os_ReadDir_def load r)
  have keys: "map fst (List.map_filter indexed_entry es) = map entry_Name (filter (\<lambda>entry. indexed_entry entry \<noteq> None) es)" for es
    by (induction es) (auto simp: List.map_filter_simps dest: indexed_entry_key split: option.splits)
  have ids: "map ID (map snd (List.map_filter indexed_entry es)) = map entry_Name (filter (\<lambda>entry. indexed_entry entry \<noteq> None) es)" for es
    by (induction es) (auto simp: List.map_filter_simps indexed_entry_def split: option.splits if_splits sum.splits)
  have dist: "distinct (map fst (List.map_filter indexed_entry entries))"
    unfolding keys using names by (simp add: distinct_map_filter)
  have look: "case indexed_entry entry of
          None \<Rightarrow> map_of (files r) (entry_Name entry) = None
        | Some (k, fileInfo) \<Rightarrow> map_of (files r) (entry_Name entry) = Some fileInfo"
    if "entry \<in> set entries" for entry
  proof (cases "indexed_entry entry")
    case None
    have "entry_Name entry \<notin> fst ` set (List.map_filter indexed_entry entries)"
    proof
      assume "entry_Name entry \<in> fst ` set (List.map_filter indexed_entry entries)"
      then have "entry_Name entry \<in> set (map entry_Name (filter (\<lambda>entry. indexed_entry entry \<noteq> None) entries))"
        unfolding keys [symmetric] by simp
      then obtain e' where e': "e' \<in> set entries" "indexed_entry e' \<noteq> None" "entry_Name e' = entry_Name entry"
        by auto
      with names that have "e' = entry"
        by (meson distinct_map inj_onD)
      with e' None show False by simp
    qed
    with None show ?thesis
      by (simp add: r map_of_eq_None_iff)
  next
    case (Some kv)
    obtain k v where kv: "kv = (k, v)" by (cases kv)
    with Some have k: "k = entry_Name entry" by (simp add: indexed_entry_key)
    from Some kv that have "(k, v) \<in> set (List.map_filter indexed_entry entries)"
      by (force simp: List.map_filter_def)
    with dist have "map_of (List.map_filter indexed_entry entries) k = Some v"
      by simp
    with Some kv k show ?thesis
      by (simp add: r)
  qed
  from new keys [of entries] ids [of entries] look show ?thesis
    by (simp add: r ListFiles_idle)
qed

text \<open>
  The theorem at the directory with the file \<open>ab\<close>, the subdirectory \<open>tmp\<close> and
  the unreadable file \<open>zz\<close>: one record, for \<open>ab\<close>.
\<close>

lemma indexed_examples:
  "indexed_entry entry_ab = Some (''ab'', \<lparr>ID = ''ab'', Filename = ''ab'', CreatedAt = 5, UpdatedAt = 5, Size = 1\<rparr>)"
  "indexed_entry entry_tmp = None"
  "indexed_entry entry_zz = None"
  by (simp_all add: indexed_entry_def entry_ab_def entry_tmp_def entry_zz_def)

theorem NewRepo_rebuilds_index_witness:
  "faults world_dir ''store'' = None
   \<and> dirs world_dir ''store'' = Some [entry_ab, entry_tmp, entry_zz]
   \<and> distinct (map entry_Name [entry_ab, entry_tmp, entry_zz])
   \<and> NewRepo world_dir ''store'' = (Inr repo_restart, world_dir)
   \<and> map_of (files repo_restart) (entry_Name entry_ab)
        = Some \<lparr>ID = ''ab'', Filename = ''ab'', CreatedAt = 5, UpdatedAt = 5, Size = 1\<rparr>
   \<and> map_of (files repo_restart) (entry_Name entry_tmp) = None
   \<and> map_of (files repo_restart) (entry_Name entry_zz) = None
   \<and> ListFiles repo_restart
        = Return (Inr [\<lparr>ID = ''ab'', Filename = ''ab'', CreatedAt = 5, UpdatedAt = 5, Size = 1\<rparr>], repo_restart)"
proof -
  have nofault: "faults world_dir ''store'' = None"
    and listing: "dirs world_dir ''store'' = Some [entry_ab, entry_tmp, entry_zz]"
    by (simp_all add: world_dir_def)
  have names: "distinct (map entry_Name [entry_ab, entry_tmp, entry_zz])"
    by (simp add: entry_ab_def entry_tmp_def entry_zz_def)
  have r: "repo_restart = \<lparr>storagePath = ''store'', mutex = RWMutex_zero,
             files = List.map_filter indexed_entry [entry_ab, entry_tmp, entry_zz]\<rparr>"
    by (simp add: repo_restart_def List.map_filter_simps indexed_examples)
  from NewRepo_rebuilds_index [OF nofault listing names r] nofault listing names show ?thesis
    by (simp add: List.map_filter_simps indexed_examples)
qed

text \<open>
  Claim C8 as the specification words it fails at a directory whose one file cannot be
  examined: the file is there, it is not a directory, and the index that \<^verbatim>\<open>NewRepo\<close>
  builds has no record of it.
\<close>

theorem NewRepo_skips_unreadable:
  "dirs world_zz ''store'' = Some [entry_zz] \<and> entry_IsDir entry_zz = False
   \<and> NewRepo world_zz ''store'' = (Inr repo_empty, world_zz)
   \<and> map_of (files repo_empty) (entry_Name entry_zz) = None
   \<and> ListFiles repo_empty = Return (Inr [], repo_empty)"
  by (simp add: NewRepo_def os_MkdirAll_def loadExistingFiles_def os_ReadDir_def world_zz_def
      entry_zz_def repo_empty_def ListFiles_idle)

section \<open>GetStats\<close>

lemma foldl_sizes:
  "foldl (\<lambda>total (k, fileInfo). total + Size fileInfo) acc fs = acc + sum_list (map (\<lambda>(k, fileInfo). Size fileInfo) fs)"
  for acc :: int64 and fs :: "(string \<times> FileInfo) list"
  by (induction fs arbitrary: acc) (auto simp: algebra_simps)

lemma GetStats_idle:
  assumes "mutex r = RWMutex_zero"
  shows "GetStats r
    = Return (Inr (length (files r), sum_list (map (\<lambda>(k, fileInfo). Size fileInfo) (files r))), r)"
  using assms by (simp add: GetStats_def Let_def foldl_sizes)

lemma uploads_fresh:
  assumes "mutex r = RWMutex_zero"
    and "uploads J ups w r = Some (ids, r', w')"
    and "distinct (map (fst \<circ> uploaded) ups)"
    and "fst ` set (files r) \<inter> (fst \<circ> uploaded) ` set ups = {}"
  shows "mutex r' = RWMutex_zero \<and> files r' = files r @ map uploaded ups \<and> ids = map (fst \<circ> uploaded) ups"
  using assms
proof (induction ups arbitrary: r w ids)
  case Nil
  then show ?case by simp
next
  case (Cons u ups)
  obtain now filename data where u: "u = (now, filename, data)" by (cases u)
  let ?id = "hex_EncodeToString (md5_Sum data)"
  have fresh: "map_of (files r) ?id = None"
    using Cons.prems(4) u by (auto simp: uploaded_def map_of_eq_None_iff)
  from Cons.prems(2) u obtain fileID r1 w1 where
    s: "SaveFile J now w r filename data = Return (Inr fileID, r1, w1)"
    by (auto split: outcome.splits sum.splits option.splits prod.splits)
  with Cons.prems(2) u obtain ids' where
    rest: "uploads J ups w1 r1 = Some (ids', r', w')" and ids: "ids = fileID # ids'"
    by (auto split: option.splits)
  from s fresh Cons.prems(1) have id: "fileID = ?id"
    and r1: "r1 = r\<lparr>files := AList.update ?id (snd (uploaded u)) (files r)\<rparr>"
    by (auto simp: SaveFile_idle Let_def uploaded_def u split: option.splits prod.splits if_splits)
  from fresh have notin: "?id \<notin> fst ` set (files r)"
    by (simp add: map_of_eq_None_iff)
  have files1: "files r1 = files r @ [uploaded u]"
    using r1 update_fresh [OF notin] by (simp add: uploaded_def u)
  have idle1: "mutex r1 = RWMutex_zero"
    using r1 Cons.prems(1) by simp
  have d: "distinct (map (fst \<circ> uploaded) ups)"
    using Cons.prems(3) by (simp add: comp_def)
  have disj: "fst ` set (files r1) \<inter> (fst \<circ> uploaded) ` set ups = {}"
    using Cons.prems(3,4) files1 by auto
  from Cons.IH [OF idle1 rest d disj] files1 ids id u show ?case
    by (simp add: uploaded_def)
qed

lemma sum_sizes_uploaded:
  "sum_list (map (\<lambda>(k, fileInfo). Size fileInfo) (map uploaded ups))
     = (of_nat (sum_list (map (\<lambda>(now, filename, data). length data) ups)) :: int64)"
  by (induction ups) (auto simp: uploaded_def)

lemma sint_of_nat_int64: "n < 2 ^ 63 \<Longrightarrow> sint (of_nat n :: int64) = int n"
  by (simp add: signed_of_nat signed_take_bit_int_eq_self)

text \<open>
  Claim C9, as the code has it.  On an idle repository \<^verbatim>\<open>GetStats\<close> returns the
  number of entries of the index (with one entry a key, the number of its keys) and the
  sum of their \<^verbatim>\<open>Size\<close> fields, added as \<^verbatim>\<open>int64\<close>.  After a run of completed
  uploads into an empty index, of contents whose content ids are pairwise distinct,
  \<^verbatim>\<open>fileCount\<close> is the number of uploads and \<^verbatim>\<open>totalBytes\<close> is the sum of the
  lengths of the payloads as an \<^verbatim>\<open>int64\<close>, which is that sum itself when it is below
  \<open>2^63\<close>.
\<close>

theorem GetStats_counts:
  assumes idle: "mutex r = RWMutex_zero"
  shows "GetStats r
      = Return (Inr (length (files r), sum_list (map (\<lambda>(k, fileInfo). Size fileInfo) (files r))), r)
    \<and> (distinct (map fst (files r)) \<longrightarrow> length (files r) = card (dom (map_of (files r))))
    \<and> (\<forall>ups ids r' w'.
          files r = [] \<and> uploads J ups w r = Some (ids, r', w')
          \<and> distinct (map (\<lambda>(now, filename, data). hex_EncodeToString (md5_Sum data)) ups)
          \<longrightarrow> GetStats r'
                = Return (Inr (length ups, of_nat (sum_list (map (\<lambda>(now, filename, data). length data) ups))), r')
              \<and> (sum_list (map (\<lambda>(now, filename, data). length data) ups) < 2 ^ 63 \<longrightarrow>
                   sint (of_nat (sum_list (map (\<lambda>(now, filename, data). length data) ups)) :: int64)
                     = int (sum_list (map (\<lambda>(now, filename, data). length data) ups))))"
proof (intro conjI allI impI)
  show "GetStats r
      = Return (Inr (length (files r), sum_list (map (\<lambda>(k, fileInfo). Size fileInfo) (files r))), r)"
    by (rule GetStats_idle [OF idle])
next
  assume "distinct (map fst (files r))"
  then show "length (files r) = card (dom (map_of (files r)))"
    using distinct_card [of "map fst (files r)"] by (simp add: dom_map_of_conv_image_fst)
next
  fix ups ids r' w'
  assume a: "files r = [] \<and> uploads J ups w r = Some (ids, r', w')
          \<and> distinct (map (\<lambda>(now, filename, data). hex_EncodeToString (md5_Sum data)) ups)"
  have key: "(\<lambda>(now, filename, data). hex_EncodeToString (md5_Sum data)) = fst \<circ> uploaded"
    by (auto simp: uploaded_def fun_eq_iff)
  from a have "mutex r' = RWMutex_zero \<and> files r' = files r @ map uploaded ups \<and> ids = map (fst \<circ> uploaded) ups"
    by (intro uploads_fresh [OF idle, of J ups w ids r' w']) (simp_all add: key)
  with a sum_sizes_uploaded [of ups] show "GetStats r'
                = Return (Inr (length ups, of_nat (sum_list (map (\<lambda>(now, filename, data). length data) ups))), r')"
    by (simp add: GetStats_idle)
next
  fix ups :: "(time \<times> string \<times> byte list) list"
  assume "sum_list (map (\<lambda>(now, filename, data). length data) ups) < 2 ^ 63"
  then show "sint (of_nat (sum_list (map (\<lambda>(now, filename, data). length data) ups)) :: int64)
                     = int (sum_list (map (\<lambda>(now, filename, data). length data) ups))"
    by (rule sint_of_nat_int64)
qed

text \<open>The theorem at the uploads of \<open>a.txt\<close> and \<open>b.txt\<close>, one byte each.\<close>

lemma md5_b: "hex_EncodeToString (md5_Sum [0x62]) = id_b"
  unfolding id_b_def by code_simp

lemma validate_b_b: "validateFile ''b.txt'' [0x62] = None"
  by (simp add: validateFile_cases ws_b)

lemma id_a_b: "id_a \<noteq> id_b"
  by (simp add: id_a_def id_b_def)

lemma SaveFile_a_b:
  "SaveFile slashJoin 8 world_a repo_a ''b.txt'' [0x62] = Return (Inr id_b, repo_a_b, world_a_b)"
  using id_a_b
  by (simp add: SaveFile_idle validate_b_b md5_b repo_a_def repo_a_b_def
      world_a_def world_a_b_def os_WriteFile_def slashJoin_def fun_upd_twist)

lemma uploads_a_b:
  "uploads slashJoin [(7, ''a.txt'', [0x61]), (8, ''b.txt'', [0x62])] world_empty repo_empty
     = Some ([id_a, id_b], repo_a_b, world_a_b)"
  by (simp add: SaveFile_a SaveFile_a_b)

theorem GetStats_counts_witness:
  "mutex repo_empty = RWMutex_zero \<and> files repo_empty = []
   \<and> uploads slashJoin [(7, ''a.txt'', [0x61]), (8, ''b.txt'', [0x62])] world_empty repo_empty
        = Some ([id_a, id_b], repo_a_b, world_a_b)
   \<and> distinct [hex_EncodeToString (md5_Sum [0x61]), hex_EncodeToString (md5_Sum [0x62])]
   \<and> GetStats repo_a_b = Return (Inr (2, 2), repo_a_b)
   \<and> distinct (map fst (files repo_a_b)) \<and> card (dom (map_of (files repo_a_b))) = 2"
proof -
  have e: "files repo_empty = []"
    by (simp add: repo_empty_def)
  have d: "distinct (map (\<lambda>(now, filename, data). hex_EncodeToString (md5_Sum data))
             [(7 :: time, ''a.txt'', [0x61]), (8, ''b.txt'', [0x62])])"
    by (simp add: md5_a md5_b id_a_b)
  have idle2: "mutex repo_a_b = RWMutex_zero" and d2: "distinct (map fst (files repo_a_b))"
    using id_a_b by (simp_all add: repo_a_b_def)
  let ?ups = "[(7 :: time, ''a.txt'', [0x61 :: byte]), (8, ''b.txt'', [0x62])]"
  have idle: "mutex repo_empty = RWMutex_zero"
    by simp
  from GetStats_counts [OF idle, where J = slashJoin and w = world_empty]
  have "files repo_empty = [] \<and> uploads slashJoin ?ups world_empty repo_empty = Some ([id_a, id_b], repo_a_b, world_a_b)
          \<and> distinct (map (\<lambda>(now, filename, data). hex_EncodeToString (md5_Sum data)) ?ups)
        \<longrightarrow> GetStats repo_a_b
              = Return (Inr (length ?ups, of_nat (sum_list (map (\<lambda>(now, filename, data). length data) ?ups))), repo_a_b)"
    by blast
  with e uploads_a_b d have "GetStats repo_a_b
              = Return (Inr (length ?ups, of_nat (sum_list (map (\<lambda>(now, filename, data). length data) ?ups))), repo_a_b)"
    by blast
  then have "GetStats repo_a_b = Return (Inr (2, 2), repo_a_b)"
    by simp
  moreover from GetStats_counts [OF idle2, where J = slashJoin and w = world_a_b] d2
  have "card (dom (map_of (files repo_a_b))) = 2"
    by (simp add: repo_a_b_def)
  ultimately show ?thesis
    using e uploads_a_b d d2 by simp
qed

text \<open>
  Claim C9 as the specification words it fails for distinct contents with one digest:
  the two colliding messages are uploaded one after the other into the empty store, both
  uploads complete, and \<^verbatim>\<open>GetStats\<close> counts one file of 128 bytes, not two files of
  256 bytes together.
\<close>

lemma md5_collision_a: "hex_EncodeToString (md5_Sum collision_a) = id_c"
  unfolding id_c_def by code_simp

lemma md5_collision_b: "hex_EncodeToString (md5_Sum collision_b) = id_c"
  unfolding id_c_def by code_simp

lemma ws_single: "\<not> whitespace_only ''a''" "\<not> whitespace_only ''b''"
  by code_simp+

lemma validate_collisions: "validateFile ''a'' collision_a = None" "validateFile ''b'' collision_b = None"
  by (simp_all add: validateFile_cases ws_single collision_a_def collision_b_def)

lemma idle_repo_c [simp]: "mutex repo_c = RWMutex_zero"
  by (simp add: repo_c_def)

lemma SaveFile_collision_a:
  "SaveFile slashJoin 1 world_empty repo_empty ''a'' collision_a = Return (Inr id_c, repo_c, world_c)"
proof -
  have "length collision_a = 128"
    by (simp add: collision_a_def)
  then show ?thesis
    by (simp add: SaveFile_idle validate_collisions md5_collision_a repo_empty_def repo_c_def
        world_empty_def world_c_def os_WriteFile_def slashJoin_def)
qed

lemma SaveFile_collision_b:
  "SaveFile slashJoin 2 world_c repo_c ''b'' collision_b = Return (Inr id_c, repo_c, world_c)"
  by (simp add: SaveFile_idle validate_collisions md5_collision_b) (simp add: repo_c_def)

theorem GetStats_collision:
  "collision_a \<noteq> collision_b
   \<and> uploads slashJoin [(1, ''a'', collision_a), (2, ''b'', collision_b)] world_empty repo_empty
        = Some ([id_c, id_c], repo_c, world_c)
   \<and> GetStats repo_c = Return (Inr (1, 128), repo_c)
   \<and> length [(1 :: time, ''a'', collision_a), (2, ''b'', collision_b)] = 2
   \<and> length collision_a + length collision_b = 256"
proof -
  have "collision_a \<noteq> collision_b"
    by (simp add: collision_a_def collision_b_def)
  moreover have "GetStats repo_c = Return (Inr (1, 128), repo_c)"
    by (simp add: GetStats_idle) (simp add: repo_c_def)
  moreover have "length collision_a + length collision_b = 256"
    by (simp add: collision_a_def collision_b_def)
  ultimately show ?thesis
    by (simp add: SaveFile_collision_a SaveFile_collision_b)
qed

section \<open>The upload handler\<close>

lemma SaveFile_error_cases:
  assumes "save = SaveFile \<or> save = SaveFile_2"
    and "returned (save J now w r filename data) = Some (Inl e)"
  shows "validateFile filename data = Some e
    \<or> (validateFile filename data = None \<and> (\<exists>e'. e = Errorf ''FAILED TO WRITE FILE: '' (OsError e')))"
proof (cases "validateFile filename data")
  case None
  with assms SaveFile_valid_error [OF None, of J now w r e] SaveFile_2_valid_error [OF None, of J now w r e]
  show ?thesis by auto
next
  case (Some err)
  with assms show ?thesis
    by (auto simp: SaveFile_invalid SaveFile_2_invalid returned_def)
qed

lemma Handler_UploadFile_status:
  assumes "returned (Handler_UploadFile save ctx w r filename data) = Some (Inl st)"
  shows "(filename = [] \<and> st = Status codes_InvalidArgument ''filename is required'')
    \<or> (filename \<noteq> [] \<and> data = [] \<and> st = Status codes_InvalidArgument ''data is required'')
    \<or> (filename \<noteq> [] \<and> data \<noteq> [] \<and> (\<exists>e. ctx = Some e \<and> st = handleError (CtxError e)))
    \<or> (filename \<noteq> [] \<and> data \<noteq> [] \<and> ctx = None
        \<and> (\<exists>err. returned (save w r filename data) = Some (Inl err)
                \<and> st = handleError (Errorf ''FAILED TO SAVE FILE: '' err)))"
  using assms
  by (cases "save w r filename data")
     (auto simp: Handler_UploadFile_def Controller_UploadFile_def returned_def
       split: if_splits option.splits sum.splits prod.splits)

lemma Handler_UploadFile_calls:
  assumes "filename \<noteq> []" and "data \<noteq> []" and "save w r filename data = Return (Inl err, r', w')"
  shows "Handler_UploadFile save None w r filename data
    = Return (Inl (handleError (Errorf ''FAILED TO SAVE FILE: '' err)), r', w')"
  using assms by (simp add: Handler_UploadFile_def Controller_UploadFile_def)

lemma handleError_Errorf: "handleError (Errorf p e) = Status codes_Internal (''INTERNAL ERROR: '' @ p @ Error e)"
  by (simp add: handleError_def)

lemma handleError_CtxError: "handleError (CtxError e) = Status codes_Internal (''INTERNAL ERROR: '' @ Error (CtxError e))"
  by (simp add: handleError_def)

lemma not_save_prefix: "Error (CtxError e) \<noteq> ''FAILED TO SAVE FILE: '' @ m"
  by (cases e) simp_all

lemma upload_error_text:
  assumes "save = SaveFile \<or> save = SaveFile_2"
    and "returned (save J now w r filename data) = Some (Inl err)"
  shows "(Error err = ''FILE IS EMPTY'' \<longrightarrow> data = [] \<and> \<not> whitespace_only filename)
    \<and> (Error err = ''INVALIDFILENAME'' \<longrightarrow> whitespace_only filename)"
  using SaveFile_error_cases [where save = save and J = J and now = now and w = w and r = r
      and filename = filename and data = data and e = err, OF assms]
proof (elim disjE conjE exE)
  assume "validateFile filename data = Some err"
  then have "err = ErrInvalidFilename \<and> whitespace_only filename
      \<or> err = ErrFileTooLarge \<or> err = ErrFileIsEmpty \<and> data = [] \<and> \<not> whitespace_only filename"
    by (simp add: validateFile_cases split: if_splits)
  then show ?thesis
    by (elim disjE conjE) simp_all
next
  fix e'
  assume "err = Errorf ''FAILED TO WRITE FILE: '' (OsError e')"
  then show ?thesis
    by simp
qed

text \<open>
  Claim C10.  \<^verbatim>\<open>Handler.UploadFile\<close> answers an empty filename, and a non-empty
  filename with empty data, with an \<^verbatim>\<open>InvalidArgument\<close> status and leaves the
  repository and the disk as they were, whatever the \<^verbatim>\<open>SaveFile\<close> behind the
  controller would do: the controller is not reached.  With either copy of
  \<^verbatim>\<open>SaveFile\<close> behind it, the handler never returns the status that the
  repository's \<^verbatim>\<open>ErrFileIsEmpty\<close> would be turned into, and it returns the status of
  the repository's \<^verbatim>\<open>ErrInvalidFilename\<close> exactly when the context is live, the
  data is not empty and the filename is not empty but white space only.
\<close>

theorem Handler_UploadFile_guards:
  "(filename = [] \<longrightarrow>
      Handler_UploadFile save ctx w r filename data
        = Return (Inl (Status codes_InvalidArgument ''filename is required''), r, w))
   \<and> (filename \<noteq> [] \<and> length data = 0 \<longrightarrow>
      Handler_UploadFile save ctx w r filename data
        = Return (Inl (Status codes_InvalidArgument ''data is required''), r, w))
   \<and> (\<forall>copy \<in> {SaveFile, SaveFile_2}.
        returned (Handler_UploadFile (copy J now) ctx w r filename data)
          \<noteq> Some (Inl (handleError (Errorf ''FAILED TO SAVE FILE: '' ErrFileIsEmpty)))
        \<and> (returned (Handler_UploadFile (copy J now) ctx w r filename data)
              = Some (Inl (handleError (Errorf ''FAILED TO SAVE FILE: '' ErrInvalidFilename)))
            \<longleftrightarrow> ctx = None \<and> filename \<noteq> [] \<and> data \<noteq> [] \<and> whitespace_only filename))"
proof (intro conjI ballI impI)
  assume "filename = []"
  then show "Handler_UploadFile save ctx w r filename data
        = Return (Inl (Status codes_InvalidArgument ''filename is required''), r, w)"
    by (simp add: Handler_UploadFile_def)
next
  assume "filename \<noteq> [] \<and> length data = 0"
  then show "Handler_UploadFile save ctx w r filename data
        = Return (Inl (Status codes_InvalidArgument ''data is required''), r, w)"
    by (simp add: Handler_UploadFile_def)
next
  fix copy
  assume c: "copy \<in> {SaveFile, SaveFile_2}"
  then have c': "copy = SaveFile \<or> copy = SaveFile_2" by simp
  let ?h = "returned (Handler_UploadFile (copy J now) ctx w r filename data)"
  have reach: "ctx = None \<and> filename \<noteq> [] \<and> data \<noteq> []
      \<and> (\<exists>err. returned (copy J now w r filename data) = Some (Inl err) \<and> Error err = m)"
    if h: "?h = Some (Inl (Status codes_Internal (''INTERNAL ERROR: FAILED TO SAVE FILE: '' @ m)))" for m
    using Handler_UploadFile_status [OF h]
  proof (elim disjE conjE exE)
    assume "Status codes_Internal (''INTERNAL ERROR: FAILED TO SAVE FILE: '' @ m)
              = Status codes_InvalidArgument ''filename is required''"
    then show ?thesis by simp
  next
    assume "Status codes_Internal (''INTERNAL ERROR: FAILED TO SAVE FILE: '' @ m)
              = Status codes_InvalidArgument ''data is required''"
    then show ?thesis by simp
  next
    fix e
    assume "Status codes_Internal (''INTERNAL ERROR: FAILED TO SAVE FILE: '' @ m) = handleError (CtxError e)"
    then have "Error (CtxError e) = ''FAILED TO SAVE FILE: '' @ m"
      by (simp add: handleError_CtxError)
    with not_save_prefix [of e m] show ?thesis
      by simp
  next
    fix err
    assume "filename \<noteq> []" "data \<noteq> []" "ctx = None"
      and "returned (copy J now w r filename data) = Some (Inl err)"
      and "Status codes_Internal (''INTERNAL ERROR: FAILED TO SAVE FILE: '' @ m)
             = handleError (Errorf ''FAILED TO SAVE FILE: '' err)"
    then show ?thesis
      by (simp add: handleError_Errorf)
  qed
  show "?h \<noteq> Some (Inl (handleError (Errorf ''FAILED TO SAVE FILE: '' ErrFileIsEmpty)))"
  proof
    assume "?h = Some (Inl (handleError (Errorf ''FAILED TO SAVE FILE: '' ErrFileIsEmpty)))"
    then have "?h = Some (Inl (Status codes_Internal (''INTERNAL ERROR: FAILED TO SAVE FILE: '' @ ''FILE IS EMPTY'')))"
      by (simp add: handleError_Errorf)
    from reach [OF this] obtain err where "data \<noteq> []"
      and "returned (copy J now w r filename data) = Some (Inl err)" and "Error err = ''FILE IS EMPTY''"
      by (elim conjE exE)
    with upload_error_text [where save = copy and J = J and now = now and w = w and r = r
        and filename = filename and data = data and err = err, OF c'] show False
      by simp
  qed
  show "?h = Some (Inl (handleError (Errorf ''FAILED TO SAVE FILE: '' ErrInvalidFilename)))
            \<longleftrightarrow> ctx = None \<and> filename \<noteq> [] \<and> data \<noteq> [] \<and> whitespace_only filename"
  proof
    assume "?h = Some (Inl (handleError (Errorf ''FAILED TO SAVE FILE: '' ErrInvalidFilename)))"
    then have "?h = Some (Inl (Status codes_Internal (''INTERNAL ERROR: FAILED TO SAVE FILE: '' @ ''INVALIDFILENAME'')))"
      by (simp add: handleError_Errorf)
    from reach [OF this] obtain err where "ctx = None" "filename \<noteq> []" "data \<noteq> []"
      and "returned (copy J now w r filename data) = Some (Inl err)" and "Error err = ''INVALIDFILENAME''"
      by (elim conjE exE)
    with upload_error_text [where save = copy and J = J and now = now and w = w and r = r
        and filename = filename and data = data and err = err, OF c']
    show "ctx = None \<and> filename \<noteq> [] \<and> data \<noteq> [] \<and> whitespace_only filename"
      by simp
  next
    assume a: "ctx = None \<and> filename \<noteq> [] \<and> data \<noteq> [] \<and> whitespace_only filename"
    then have "validateFile filename data = Some ErrInvalidFilename"
      by (simp add: validateFile_cases)
    with c' have "copy J now w r filename data = Return (Inl ErrInvalidFilename, r, w)"
      by (auto simp: SaveFile_invalid SaveFile_2_invalid)
    with a show "?h = Some (Inl (handleError (Errorf ''FAILED TO SAVE FILE: '' ErrInvalidFilename)))"
      by (simp add: Handler_UploadFile_calls returned_def)
  qed
qed

text \<open>
  The theorem at the empty filename, at \<open>a.txt\<close> without data, and at the filename
  \<open>" "\<close> with one byte of data.
\<close>

theorem Handler_UploadFile_guards_witness:
  "Handler_UploadFile (SaveFile_2 slashJoin 7) None world_empty repo_empty [] [0x61]
     = Return (Inl (Status codes_InvalidArgument ''filename is required''), repo_empty, world_empty)
   \<and> ''a.txt'' \<noteq> [] \<and> length ([] :: byte list) = 0
   \<and> Handler_UploadFile (SaveFile_2 slashJoin 7) None world_empty repo_empty ''a.txt'' []
     = Return (Inl (Status codes_InvalidArgument ''data is required''), repo_empty, world_empty)
   \<and> SaveFile_2 \<in> {SaveFile, SaveFile_2}
   \<and> '' '' \<noteq> [] \<and> [0x61 :: byte] \<noteq> [] \<and> whitespace_only '' ''
   \<and> returned (Handler_UploadFile (SaveFile_2 slashJoin 7) None world_empty repo_empty '' '' [0x61])
       = Some (Inl (Status codes_Internal ''INTERNAL ERROR: FAILED TO SAVE FILE: INVALIDFILENAME''))"
  using Handler_UploadFile_guards [of "[]" "SaveFile_2 slashJoin 7" None world_empty repo_empty "[0x61]" slashJoin 7]
    Handler_UploadFile_guards [of "''a.txt''" "SaveFile_2 slashJoin 7" None world_empty repo_empty "[]" slashJoin 7]
    Handler_UploadFile_guards [of "'' ''" "SaveFile_2 slashJoin 7" None world_empty repo_empty "[0x61]" slashJoin 7]
    ws_blank
  by (simp add: handleError_Errorf)

section \<open>Statuses of errors\<close>

lemma select_full:
  "chan_cap sem \<le> chan_len sem \<Longrightarrow> select_semaphore sem None pick = DefaultCase"
  by (simp add: select_semaphore_def)

lemma limiter_busy_reached:
  "snd (concurrently handleUploadDownload_2_select (replicate 10 (None, True)) NewConcurrencyLimiter) = limiter_busy"
  by code_simp

text \<open>
  Claim C2, as the code has it.  \<^verbatim>\<open>handleError\<close> maps the error value it is given:
  the sentinel \<^verbatim>\<open>ErrFileNotFound\<close> to \<^verbatim>\<open>NotFound\<close>; the sentinels
  \<^verbatim>\<open>ErrInvalidFileID\<close>, \<^verbatim>\<open>ErrFileTooLarge\<close> and \<^verbatim>\<open>ErrInvalidFilename\<close> to
  \<^verbatim>\<open>InvalidArgument\<close>; \<^verbatim>\<open>ErrStorageUnavailable\<close> and every other error value to
  \<^verbatim>\<open>Internal\<close>.  The limiter's refusal of a request with a live context when the
  semaphore is full is an error made by \<^verbatim>\<open>fmt.Errorf\<close> from a text, in all four
  handlers, with the limiter unchanged; such an error carries no status, and the server
  sends it with the code \<^verbatim>\<open>Unknown\<close>.
\<close>

theorem handleError_mapping:
  "handleError ErrFileNotFound = Status codes_NotFound ''FILE NOT FOUND''
   \<and> handleError ErrInvalidFileID = Status codes_InvalidArgument ''INVALID FILE ID''
   \<and> handleError ErrFileTooLarge = Status codes_InvalidArgument ''FILE IS TOO LARGE''
   \<and> handleError ErrInvalidFilename = Status codes_InvalidArgument ''INVALID FILENAME''
   \<and> handleError ErrStorageUnavailable = Status codes_Internal ''STORAGE UNAVAILABLE''
   \<and> (\<forall>err. err \<notin> {ErrFileNotFound, ErrInvalidFileID, ErrFileTooLarge, ErrInvalidFilename} \<longrightarrow>
          status_code (handleError err) = codes_Internal)
   \<and> (\<forall>cl pick. chan_cap (uploadSemaphore cl) \<le> chan_len (uploadSemaphore cl) \<longrightarrow>
          handleUploadDownload_select None pick cl
            = (Some (ErrorString ''TOO MANY CONC UPLOAD/DOWNLOAD REQUESTS, MAX 10''), cl)
          \<and> handleUploadDownload_2_select None pick cl
            = (Some (ErrorString ''Too many conc upload/download requests, max 10''), cl)
          \<and> handleList_2_select None pick cl
            = (Some (ErrorString ''Too many conc list requests, max 10''), cl))
   \<and> (\<forall>cl pick. chan_cap (listSemaphore cl) \<le> chan_len (listSemaphore cl) \<longrightarrow>
          handleList_select None pick cl
            = (Some (ErrorString ''TOO MANY CONC LIST REQUESTS, MAX 100''), cl))
   \<and> (\<forall>m. server_status (PlainError (ErrorString m)) = Status codes_Unknown m)"
  by (simp add: handleError_def handleUploadDownload_select_def handleUploadDownload_2_select_def
      handleList_select_def handleList_2_select_def select_full server_status_def)

text \<open>
  The theorem at two errors outside the four sentinels, \<^verbatim>\<open>ErrFailToDeleteFile\<close> and
  a wrapped \<^verbatim>\<open>ErrFileNotFound\<close>, and at the limiter with ten transfers in flight.
\<close>

theorem handleError_mapping_witness:
  "ErrFailToDeleteFile \<notin> {ErrFileNotFound, ErrInvalidFileID, ErrFileTooLarge, ErrInvalidFilename}
   \<and> status_code (handleError ErrFailToDeleteFile) = codes_Internal
   \<and> Errorf ''FAILED TO GET FILE: '' ErrFileNotFound
        \<notin> {ErrFileNotFound, ErrInvalidFileID, ErrFileTooLarge, ErrInvalidFilename}
   \<and> status_code (handleError (Errorf ''FAILED TO GET FILE: '' ErrFileNotFound)) = codes_Internal
   \<and> chan_cap (uploadSemaphore limiter_busy) \<le> chan_len (uploadSemaphore limiter_busy)
   \<and> handleUploadDownload_2_select None True limiter_busy
        = (Some (ErrorString ''Too many conc upload/download requests, max 10''), limiter_busy)
   \<and> server_status (PlainError (ErrorString ''Too many conc upload/download requests, max 10''))
        = Status codes_Unknown ''Too many conc upload/download requests, max 10''"
proof -
  have full: "chan_cap (uploadSemaphore limiter_busy) \<le> chan_len (uploadSemaphore limiter_busy)"
    by (simp add: limiter_busy_def)
  have a: "ErrFailToDeleteFile \<notin> {ErrFileNotFound, ErrInvalidFileID, ErrFileTooLarge, ErrInvalidFilename}"
    and b: "Errorf ''FAILED TO GET FILE: '' ErrFileNotFound
        \<notin> {ErrFileNotFound, ErrInvalidFileID, ErrFileTooLarge, ErrInvalidFilename}"
    by simp_all
  from handleError_mapping full a b show ?thesis
    by simp
qed

text \<open>
  Claim C2 as the specification words it fails twice.  A download of an id that is not
  in the index fails in the repository with \<^verbatim>\<open>ErrFileNotFound\<close>, the controller wraps
  the error, and the handler answers \<^verbatim>\<open>Internal\<close>, not \<^verbatim>\<open>NotFound\<close>.  The
  eleventh concurrent transfer is refused with an error that reaches the client with
  the code \<^verbatim>\<open>Unknown\<close>, not \<^verbatim>\<open>ResourceExhausted\<close>.
\<close>

theorem NotFound_and_rejection_statuses:
  "GetFile slashJoin world_empty repo_empty ''nosuchid'' = Return (Inl ErrFileNotFound, repo_empty)
   \<and> Handler_GetFile slashJoin None world_empty repo_empty ''nosuchid''
        = Return (Inl (Status codes_Internal ''INTERNAL ERROR: FAILED TO GET FILE: FILE NOT FOUND''), repo_empty)
   \<and> codes_Internal \<noteq> codes_NotFound
   \<and> snd (concurrently handleUploadDownload_2_select (replicate 10 (None, True)) NewConcurrencyLimiter)
        = limiter_busy
   \<and> handleUploadDownload_2_select None True limiter_busy
        = (Some (ErrorString ''Too many conc upload/download requests, max 10''), limiter_busy)
   \<and> server_status (PlainError (ErrorString ''Too many conc upload/download requests, max 10''))
        = Status codes_Unknown ''Too many conc upload/download requests, max 10''
   \<and> codes_Unknown \<noteq> codes_ResourceExhausted"
proof -
  have g: "GetFile slashJoin world_empty repo_empty ''nosuchid'' = Return (Inl ErrFileNotFound, repo_empty)"
    by (simp add: GetFile_not_indexed repo_empty_def)
  then have "Handler_GetFile slashJoin None world_empty repo_empty ''nosuchid''
        = Return (Inl (Status codes_Internal ''INTERNAL ERROR: FAILED TO GET FILE: FILE NOT FOUND''), repo_empty)"
    by (simp add: Handler_GetFile_def Controller_GetFile_def handleError_def)
  moreover have "handleUploadDownload_2_select None True limiter_busy
        = (Some (ErrorString ''Too many conc upload/download requests, max 10''), limiter_busy)"
    by (simp add: handleUploadDownload_2_select_def select_semaphore_def limiter_busy_def)
  ultimately show ?thesis
    using g by (simp add: limiter_busy_reached server_status_def)
qed

section \<open>Bounds of the limiter\<close>

text \<open>
  In the commented copy each counter equals the number of slots taken in its own pool, so
  at most 10 transfers and at most 100 list requests are in flight.  In the copy without
  comments both kinds of request share the transfer pool of 10 slots.
\<close>

lemmas limiter_defs =
  handleUploadDownload_select_def handleUploadDownload_2_select_def handleUploadDownload_deferred_def
  handleList_select_def handleList_deferred_def handleList_2_select_def handleList_2_deferred_def
  select_semaphore_def updateUploadStats_def updateListStats_def chan_send_def chan_recv_def

lemma reachable_pools:
  assumes "reachable cl"
  shows "chan_cap (uploadSemaphore cl) = 10 \<and> chan_cap (listSemaphore cl) = 100
    \<and> uploadActive (stats cl) = int (chan_len (uploadSemaphore cl))
    \<and> listActive (stats cl) = int (chan_len (listSemaphore cl))
    \<and> chan_len (uploadSemaphore cl) \<le> 10 \<and> chan_len (listSemaphore cl) \<le> 100"
  using assms
proof (induction rule: reachable.induct)
  case reachable_new
  show ?case by (simp add: NewConcurrencyLimiter_def make_chan_def)
next
  case (reachable_transfer cl ctx pick res cl')
  then show ?case
    by (auto simp: limiter_defs split: option.splits if_splits)
next
  case (reachable_transfer_left cl cl')
  then show ?case
    by (auto simp: limiter_defs split: if_splits)
next
  case (reachable_list cl ctx pick res cl')
  then show ?case
    by (auto simp: limiter_defs split: option.splits if_splits)
next
  case (reachable_list_left cl cl')
  then show ?case
    by (auto simp: limiter_defs split: if_splits)
qed

lemma reachable_listActive: "reachable cl \<Longrightarrow> 0 \<le> listActive (stats cl) \<and> listActive (stats cl) \<le> 100"
  using reachable_pools [of cl] by simp

lemma reachable_2_pool:
  assumes "reachable_2 cl"
  shows "chan_cap (uploadSemaphore cl) = 10
    \<and> uploadActive (stats cl) + listActive (stats cl) = int (chan_len (uploadSemaphore cl))
    \<and> 0 \<le> uploadActive (stats cl) \<and> 0 \<le> listActive (stats cl)
    \<and> chan_len (uploadSemaphore cl) \<le> 10"
  using assms
proof (induction rule: reachable_2.induct)
  case reachable_2_new
  show ?case by (simp add: NewConcurrencyLimiter_def make_chan_def)
next
  case (reachable_2_transfer cl ctx pick res cl')
  then show ?case
    by (auto simp: limiter_defs split: option.splits if_splits)
next
  case (reachable_2_transfer_left cl cl')
  then show ?case
    by (auto simp: limiter_defs split: if_splits)
next
  case (reachable_2_list cl ctx pick res cl')
  then show ?case
    by (auto simp: limiter_defs split: option.splits if_splits)
next
  case (reachable_2_list_left cl cl')
  then show ?case
    by (auto simp: limiter_defs split: if_splits)
qed

lemma reachable_2_listActive:
  "reachable_2 cl \<Longrightarrow> uploadActive (stats cl) + listActive (stats cl) \<le> 10"
  using reachable_2_pool [of cl] by simp

section \<open>Admission of list requests\<close>

text \<open>
  Claim C1 on the copy of \<^verbatim>\<open>handleList\<close> without comments (lines 285-302).  Of 110
  concurrent list requests with live contexts on a new limiter, 10 are admitted and 100
  are refused; and with ten transfers in flight a list request is refused, although no
  list request is running.  The commented copy (lines 138-165) admits 100 of the 110,
  refuses 10, and admits a list request while ten transfers are in flight.
\<close>

theorem handleList_2_uses_transfer_pool:
  "admissions (fst (concurrently handleList_2_select (replicate 110 (None, True)) NewConcurrencyLimiter)) = 10
   \<and> rejections (fst (concurrently handleList_2_select (replicate 110 (None, True)) NewConcurrencyLimiter)) = 100
   \<and> snd (concurrently handleUploadDownload_2_select (replicate 10 (None, True)) NewConcurrencyLimiter)
        = limiter_busy
   \<and> handleList_2_select None True limiter_busy
        = (Some (ErrorString ''Too many conc list requests, max 10''), limiter_busy)
   \<and> admissions (fst (concurrently handleList_select (replicate 110 (None, True)) NewConcurrencyLimiter)) = 100
   \<and> rejections (fst (concurrently handleList_select (replicate 110 (None, True)) NewConcurrencyLimiter)) = 10
   \<and> fst (handleList_select None True limiter_busy) = None"
  by code_simp

end
